theory Spec2Isabelle
  imports Complex_Main
begin

section \<open>JavaScript numbers\<close>

text \<open>
  The price arithmetic of the oracle is done on JavaScript numbers. A number is modelled
  as a real, one of the two infinities, or NaN, so that the division by zero the source
  can perform is a value of the model (HOL's \<open>x / 0 = 0\<close> is not what the program does).
  Finite results are exact reals: the rounding of binary64 and the sign of zero are not
  modelled.
\<close>

datatype jsnum = Fin real | PInf | NInf | NaN

fun jneg :: "jsnum \<Rightarrow> jsnum" where
  "jneg (Fin a) = Fin (- a)"
| "jneg PInf = NInf"
| "jneg NInf = PInf"
| "jneg NaN = NaN"

fun jadd :: "jsnum \<Rightarrow> jsnum \<Rightarrow> jsnum" where
  "jadd (Fin a) (Fin b) = Fin (a + b)"
| "jadd NaN _ = NaN"
| "jadd _ NaN = NaN"
| "jadd PInf NInf = NaN"
| "jadd NInf PInf = NaN"
| "jadd PInf _ = PInf"
| "jadd _ PInf = PInf"
| "jadd NInf _ = NInf"
| "jadd _ NInf = NInf"

definition jsub :: "jsnum \<Rightarrow> jsnum \<Rightarrow> jsnum" where
  "jsub a b = jadd a (jneg b)"

fun jmul :: "jsnum \<Rightarrow> jsnum \<Rightarrow> jsnum" where
  "jmul (Fin a) (Fin b) = Fin (a * b)"
| "jmul NaN _ = NaN"
| "jmul _ NaN = NaN"
| "jmul (Fin a) PInf = (if a = 0 then NaN else if 0 < a then PInf else NInf)"
| "jmul (Fin a) NInf = (if a = 0 then NaN else if 0 < a then NInf else PInf)"
| "jmul PInf (Fin b) = (if b = 0 then NaN else if 0 < b then PInf else NInf)"
| "jmul NInf (Fin b) = (if b = 0 then NaN else if 0 < b then NInf else PInf)"
| "jmul PInf PInf = PInf"
| "jmul PInf NInf = NInf"
| "jmul NInf PInf = NInf"
| "jmul NInf NInf = PInf"

fun jdiv :: "jsnum \<Rightarrow> jsnum \<Rightarrow> jsnum" where
  "jdiv (Fin a) (Fin b) =
     (if b \<noteq> 0 then Fin (a / b)
      else if a = 0 then NaN
      else if 0 < a then PInf else NInf)"
| "jdiv NaN _ = NaN"
| "jdiv _ NaN = NaN"
| "jdiv (Fin a) PInf = Fin 0"
| "jdiv (Fin a) NInf = Fin 0"
| "jdiv PInf (Fin b) = (if 0 \<le> b then PInf else NInf)"
| "jdiv NInf (Fin b) = (if 0 \<le> b then NInf else PInf)"
| "jdiv PInf PInf = NaN"
| "jdiv PInf NInf = NaN"
| "jdiv NInf PInf = NaN"
| "jdiv NInf NInf = NaN"

fun jabs :: "jsnum \<Rightarrow> jsnum" where
  "jabs (Fin a) = Fin \<bar>a\<bar>"
| "jabs PInf = PInf"
| "jabs NInf = PInf"
| "jabs NaN = NaN"

text \<open>\<open>Math.max\<close> and \<open>Math.min\<close> return NaN as soon as one argument is NaN.\<close>

fun jmax :: "jsnum \<Rightarrow> jsnum \<Rightarrow> jsnum" where
  "jmax (Fin a) (Fin b) = Fin (max a b)"
| "jmax NaN _ = NaN"
| "jmax _ NaN = NaN"
| "jmax PInf _ = PInf"
| "jmax _ PInf = PInf"
| "jmax NInf b = b"
| "jmax a NInf = a"

fun jmin :: "jsnum \<Rightarrow> jsnum \<Rightarrow> jsnum" where
  "jmin (Fin a) (Fin b) = Fin (min a b)"
| "jmin NaN _ = NaN"
| "jmin _ NaN = NaN"
| "jmin NInf _ = NInf"
| "jmin _ NInf = NInf"
| "jmin PInf b = b"
| "jmin a PInf = a"

text \<open>\<open>Math.round\<close>: the nearest integer, halves rounded up.\<close>

fun jround :: "jsnum \<Rightarrow> jsnum" where
  "jround (Fin a) = Fin (of_int \<lfloor>a + 1 / 2\<rfloor>)"
| "jround PInf = PInf"
| "jround NInf = NInf"
| "jround NaN = NaN"

text \<open>The comparison \<open>a <= b\<close>: false as soon as one side is NaN.\<close>

fun jle :: "jsnum \<Rightarrow> jsnum \<Rightarrow> bool" where
  "jle (Fin a) (Fin b) = (a \<le> b)"
| "jle NaN _ = False"
| "jle _ NaN = False"
| "jle NInf _ = True"
| "jle _ PInf = True"
| "jle PInf _ = False"
| "jle _ NInf = False"

text \<open>\<open>isNaN\<close> on a number.\<close>

fun isNaN :: "jsnum \<Rightarrow> bool" where
  "isNaN NaN = True"
| "isNaN _ = False"

text \<open>An integer (a unix timestamp, a difference of two) read as a number.\<close>

definition num :: "int \<Rightarrow> jsnum" where
  "num i = Fin (of_int i)"

text \<open>\<open>Math.round(x * 100) / 100\<close>, the rounding to two decimals used for every price,
  on exact reals: where the binary64 product \<open>x * 100\<close> falls just below a half (as for
  1.005) the program rounds down and this function up.\<close>

definition round2 :: "jsnum \<Rightarrow> jsnum" where
  "round2 x = jdiv (jround (jmul x (Fin 100))) (Fin 100)"

section \<open>Strings\<close>

text \<open>
  \<open>toUpperCase\<close> and \<open>toLowerCase\<close> on the ASCII letters; every other character
  is left as it is. Tokens are alphanumeric and networks come from a closed list of ASCII
  words, so the Unicode case mappings do not arise.
\<close>

definition upper_letters :: string where
  "upper_letters = ''ABCDEFGHIJKLMNOPQRSTUVWXYZ''"

definition lower_letters :: string where
  "lower_letters = ''abcdefghijklmnopqrstuvwxyz''"

definition lower_char :: "char \<Rightarrow> char" where
  "lower_char c = (case map_of (zip upper_letters lower_letters) c of Some d \<Rightarrow> d | None \<Rightarrow> c)"

definition upper_char :: "char \<Rightarrow> char" where
  "upper_char c = (case map_of (zip lower_letters upper_letters) c of Some d \<Rightarrow> d | None \<Rightarrow> c)"

definition toLowerCase :: "string \<Rightarrow> string" where
  "toLowerCase s = map lower_char s"

definition toUpperCase :: "string \<Rightarrow> string" where
  "toUpperCase s = map upper_char s"

section \<open>The durable price store (services/mongodb)\<close>

text \<open>\<open>SourceType\<close>. A stored document's source is \<open>alchemy\<close> or \<open>interpolated\<close>.\<close>

datatype source_type = cache | alchemy | interpolated

text \<open>\<open>IPriceDocument\<close>: \<open>timestamp\<close> is the unix time in seconds.\<close>

record price_doc =
  doc_token :: string
  doc_network :: string
  doc_date :: string
  doc_timestamp :: int
  doc_price :: jsnum
  doc_source :: source_type

text \<open>
  The database behind the service. \<open>isConnected\<close> is the service's own flag,
  \<open>readyState\<close> is \<open>mongoose.connection.readyState\<close> (1 = connected), \<open>docs\<close> the
  collection \<open>prices\<close>, and \<open>rejects\<close> lists the driver operations that currently
  fail (a network error, a timeout): the source wraps its queries in \<open>try/catch\<close> for
  them. A driver call on a connection that is not up is rejected: mongoose buffers the
  command and rejects it when the buffering times out.
\<close>

datatype db_op = FindOne | Find | Save

datatype db_error = ConnectionError | OperationError | ValidationError | DuplicateKey | AlreadyExistsError

record mongo =
  isConnected :: bool
  readyState :: nat
  docs :: "price_doc list"
  rejects :: "db_op list"

definition driver_error :: "mongo \<Rightarrow> db_op \<Rightarrow> db_error option" where
  "driver_error st op =
     (if readyState st \<noteq> 1 then Some ConnectionError
      else if op \<in> set (rejects st) then Some OperationError
      else None)"

definition matches :: "string \<Rightarrow> string \<Rightarrow> price_doc \<Rightarrow> bool" where
  "matches tok net d = (doc_token d = tok \<and> doc_network d = net)"

text \<open>\<open>findOne(...).sort({timestamp: -1})\<close>: the document with the greatest timestamp.\<close>

fun newest :: "price_doc list \<Rightarrow> price_doc option" where
  "newest [] = None"
| "newest (d # ds) =
     (case newest ds of
        None \<Rightarrow> Some d
      | Some e \<Rightarrow> if doc_timestamp d < doc_timestamp e then Some e else Some d)"

text \<open>\<open>findOne(...).sort({timestamp: 1})\<close>: the document with the least timestamp.\<close>

fun oldest :: "price_doc list \<Rightarrow> price_doc option" where
  "oldest [] = None"
| "oldest (d # ds) =
     (case oldest ds of
        None \<Rightarrow> Some d
      | Some e \<Rightarrow> if doc_timestamp e < doc_timestamp d then Some e else Some d)"

text \<open>\<open>Price.findOne({token, network, timestamp})\<close>.\<close>

definition Price_findOne :: "mongo \<Rightarrow> string \<Rightarrow> string \<Rightarrow> int \<Rightarrow> db_error + price_doc option" where
  "Price_findOne st tok net ts =
     (case driver_error st FindOne of
        Some e \<Rightarrow> Inl e
      | None \<Rightarrow> Inr (find (\<lambda>d. matches tok net d \<and> doc_timestamp d = ts) (docs st)))"

text \<open>The static \<open>Price.findClosestPrices\<close>: two \<open>findOne\<close> queries under \<open>Promise.all\<close>.\<close>

definition Price_findClosestPrices ::
  "mongo \<Rightarrow> string \<Rightarrow> string \<Rightarrow> int \<Rightarrow> db_error + (price_doc option \<times> price_doc option)" where
  "Price_findClosestPrices st token network timestamp =
     (let upperToken = toUpperCase token; lowerNetwork = toLowerCase network in
      case driver_error st FindOne of
        Some e \<Rightarrow> Inl e
      | None \<Rightarrow>
          Inr (newest (filter (\<lambda>d. matches upperToken lowerNetwork d \<and> doc_timestamp d \<le> timestamp) (docs st)),
               oldest (filter (\<lambda>d. matches upperToken lowerNetwork d \<and> timestamp \<le> doc_timestamp d) (docs st))))"

text \<open>\<open>Price.find({token, network, timestamp: {$gte, $lte}}).sort({timestamp: 1})\<close>.\<close>

definition Price_find :: "mongo \<Rightarrow> string \<Rightarrow> string \<Rightarrow> int \<Rightarrow> int \<Rightarrow> db_error + price_doc list" where
  "Price_find st tok net lo hi =
     (case driver_error st Find of
        Some e \<Rightarrow> Inl e
      | None \<Rightarrow>
          Inr (sort_key doc_timestamp
                 (filter (\<lambda>d. matches tok net d \<and> lo \<le> doc_timestamp d \<and> doc_timestamp d \<le> hi) (docs st))))"

text \<open>
  \<open>new Price(data).save()\<close>: the schema uppercases the token, lowercases the network,
  refuses a price that is not at least 0 and a source outside its enumeration, and the
  unique index on (token, network, timestamp) refuses a second document with the same key.
  The schema also trims the two texts; tokens and networks that reach the store through
  the resolver carry no white space, and trimming is not modelled.
\<close>

definition Price_save :: "mongo \<Rightarrow> price_doc \<Rightarrow> db_error + mongo" where
  "Price_save st priceData =
     (let d = priceData\<lparr>doc_token := toUpperCase (doc_token priceData),
                         doc_network := toLowerCase (doc_network priceData)\<rparr> in
      case driver_error st Save of
        Some e \<Rightarrow> Inl e
      | None \<Rightarrow>
          if \<not> jle (Fin 0) (doc_price d) \<or> doc_source d = cache then Inl ValidationError
          else if list_ex (\<lambda>e. matches (doc_token d) (doc_network d) e \<and> doc_timestamp e = doc_timestamp d) (docs st)
          then Inl DuplicateKey
          else Inr (st\<lparr>docs := docs st @ [d]\<rparr>))"

definition isReady :: "mongo \<Rightarrow> bool" where
  "isReady st = (isConnected st \<and> readyState st = 1)"

text \<open>\<open>createPrice\<close> has no readiness check; it rethrows whatever \<open>save\<close> throws, a
  duplicate key as an error of its own when the driver names its error \<open>MongoError\<close>
  (a driver that names it otherwise has its own error rethrown). Either way it throws.\<close>

definition createPrice :: "mongo \<Rightarrow> price_doc \<Rightarrow> db_error + mongo" where
  "createPrice st priceData =
     (case Price_save st priceData of
        Inl DuplicateKey \<Rightarrow> Inl AlreadyExistsError
      | Inl e \<Rightarrow> Inl e
      | Inr st' \<Rightarrow> Inr st')"

definition findPriceByTimestamp :: "mongo \<Rightarrow> string \<Rightarrow> string \<Rightarrow> int \<Rightarrow> price_doc option" where
  "findPriceByTimestamp st token network timestamp =
     (if \<not> isReady st then None
      else case Price_findOne st (toUpperCase token) (toLowerCase network) timestamp of
             Inl e \<Rightarrow> None
           | Inr r \<Rightarrow> r)"

definition findClosestPrices ::
  "mongo \<Rightarrow> string \<Rightarrow> string \<Rightarrow> int \<Rightarrow> price_doc option \<times> price_doc option" where
  "findClosestPrices st token network timestamp =
     (if \<not> isReady st then (None, None)
      else case Price_findClosestPrices st token network timestamp of
             Inl e \<Rightarrow> (None, None)
           | Inr r \<Rightarrow> r)"

text \<open>
  \<open>getPriceHistory\<close> takes its two dates in milliseconds. It has neither the readiness
  check nor the \<open>try/catch\<close> of the two lookups above: what the driver throws reaches
  the caller.
\<close>

definition getPriceHistory :: "mongo \<Rightarrow> string \<Rightarrow> string \<Rightarrow> int \<Rightarrow> int \<Rightarrow> db_error + price_doc list" where
  "getPriceHistory st token network startDate endDate =
     Price_find st (toUpperCase token) (toLowerCase network) (startDate div 1000) (endDate div 1000)"

section \<open>The interpolation engine (services/interpolation)\<close>

record data_point =
  dp_timestamp :: int
  dp_price :: jsnum
  dp_timeDiff :: int

text \<open>\<open>InterpolationResult\<close>; its \<open>source\<close> is always \<open>interpolated\<close>.\<close>

record InterpolationResult =
  ir_price :: jsnum
  ir_source :: source_type
  ir_confidence :: jsnum
  ir_before :: data_point
  ir_after :: data_point

definition calculateInterpolationConfidence :: "int \<Rightarrow> int \<Rightarrow> int \<Rightarrow> jsnum \<Rightarrow> jsnum \<Rightarrow> jsnum" where
  "calculateInterpolationConfidence queryTs beforeTs afterTs beforePrice afterPrice =
     (let totalGap = num (afterTs - beforeTs);
          maxAcceptableGap = num (7 * 24 * 60 * 60);
          timeConfidence = jmax (Fin 0) (jsub (Fin 1) (jdiv totalGap maxAcceptableGap));
          priceChange = jdiv (jabs (jsub afterPrice beforePrice)) beforePrice;
          maxAcceptableChange = Fin (5 / 10);
          stabilityConfidence = jmax (Fin 0) (jsub (Fin 1) (jdiv priceChange maxAcceptableChange));
          beforeGap = num (queryTs - beforeTs);
          afterGap = num (afterTs - queryTs);
          positionRatio = jdiv (jmin beforeGap afterGap) (jmax beforeGap afterGap);
          positionConfidence = positionRatio;
          confidence =
            jadd (jadd (jmul timeConfidence (Fin (4 / 10))) (jmul stabilityConfidence (Fin (4 / 10))))
                 (jmul positionConfidence (Fin (2 / 10)))
      in jmin (Fin 1) (jmax (Fin 0) confidence))"

text \<open>
  \<open>interpolatePrice\<close>. The body is wrapped in a \<open>try/catch\<close> that returns \<open>null\<close>;
  \<open>findClosestPrices\<close> never throws and the arithmetic on numbers cannot, so the
  \<open>catch\<close> branch has no input that reaches it.
\<close>

definition interpolatePrice :: "mongo \<Rightarrow> string \<Rightarrow> string \<Rightarrow> int \<Rightarrow> InterpolationResult option" where
  "interpolatePrice st token network queryTimestamp =
     (case findClosestPrices st token network queryTimestamp of
        (None, None) \<Rightarrow> None
      | (None, Some a) \<Rightarrow> None
      | (Some b, None) \<Rightarrow> None
      | (Some beforePrice, Some afterPrice) \<Rightarrow>
          (let ts1 = doc_timestamp beforePrice;
               ts2 = doc_timestamp afterPrice;
               price1 = doc_price beforePrice;
               price2 = doc_price afterPrice
           in if ts1 = ts2 then None
              else
                (let ratio = jdiv (num (queryTimestamp - ts1)) (num (ts2 - ts1));
                     interpolatedPrice = jadd price1 (jmul (jsub price2 price1) ratio);
                     confidence = calculateInterpolationConfidence queryTimestamp ts1 ts2 price1 price2
                 in Some \<lparr>ir_price = round2 interpolatedPrice,
                           ir_source = interpolated,
                           ir_confidence = confidence,
                           ir_before = \<lparr>dp_timestamp = ts1, dp_price = price1, dp_timeDiff = queryTimestamp - ts1\<rparr>,
                           ir_after = \<lparr>dp_timestamp = ts2, dp_price = price2, dp_timeDiff = ts2 - queryTimestamp\<rparr>\<rparr>)))"


section \<open>The upstream adapter (services/alchemy)\<close>

text \<open>A JSON value, as \<open>response.data\<close> of the HTTP client holds it.\<close>

datatype json =
    JNull
  | JBool bool
  | JNumber jsnum
  | JString string
  | JArray "json list"
  | JObject "(string \<times> json) list"

text \<open>
  The two endpoints the adapter calls: the current price of a coin, and the price of a
  coin on a day. The day stands for the \<open>YYYY-MM-DD\<close> text of the URL and is the number
  of the UTC day since the epoch.
\<close>

datatype api_request = SimplePrice string | CoinHistory string int

text \<open>What the network does with a request: no response (a connection error, the 10 s
  timeout), or a response with a status and a body.\<close>

datatype http_outcome = NoResponse | Response nat json

text \<open>
  The world outside the process: the clock (milliseconds, and its ISO text), the parsing
  of a date text by \<open>new Date\<close> (\<open>None\<close> is an Invalid Date), the upstream server,
  \<open>JSON.parse\<close> on a cached text (\<open>None\<close> when it throws; the source types the
  result as \<open>CacheData\<close>) and \<open>JSON.stringify\<close> on a \<open>CacheData\<close>.
\<close>

record CacheData =
  cd_price :: jsnum
  cd_source :: source_type
  cd_timestamp :: string
  cd_cachedAt :: string

record env =
  now :: int
  now_iso :: string
  Date_parse :: "string \<Rightarrow> int option"
  http :: "api_request \<Rightarrow> http_outcome"
  JSON_parse :: "string \<Rightarrow> CacheData option"
  JSON_stringify :: "CacheData \<Rightarrow> string"

datatype js_exn = AxiosError | TypeError | RangeError

text \<open>\<open>axios.get\<close> rejects when there is no response and when the status is not 2xx.\<close>

definition axios_get :: "env \<Rightarrow> api_request \<Rightarrow> js_exn + json" where
  "axios_get e r =
     (case http e r of
        NoResponse \<Rightarrow> Inl AxiosError
      | Response status data \<Rightarrow> if 200 \<le> status \<and> status < 300 then Inr data else Inl AxiosError)"

text \<open>\<open>x[k]\<close>: a TypeError on \<open>null\<close> and \<open>undefined\<close> (\<open>None\<close>), else the property,
  \<open>undefined\<close> when \<open>x\<close> has none of that name.\<close>

fun get_prop :: "json option \<Rightarrow> string \<Rightarrow> js_exn + json option" where
  "get_prop None k = Inl TypeError"
| "get_prop (Some JNull) k = Inl TypeError"
| "get_prop (Some (JObject kvs)) k = Inr (map_of kvs k)"
| "get_prop (Some v) k = Inr None"

text \<open>\<open>x?.k\<close>: \<open>undefined\<close> on \<open>null\<close> and \<open>undefined\<close>.\<close>

fun opt_prop :: "json option \<Rightarrow> string \<Rightarrow> json option" where
  "opt_prop None k = None"
| "opt_prop (Some JNull) k = None"
| "opt_prop (Some (JObject kvs)) k = map_of kvs k"
| "opt_prop (Some v) k = None"

text \<open>\<open>typeof price !== 'number' || isNaN(price)\<close> rejects: what is left is a price.\<close>

fun as_price :: "json option \<Rightarrow> jsnum option" where
  "as_price (Some (JNumber n)) = (if isNaN n then None else Some n)"
| "as_price v = None"

definition tokenMap :: "(string \<times> string) list" where
  "tokenMap =
     [(''BTC'', ''bitcoin''), (''ETH'', ''ethereum''), (''USDC'', ''usd-coin''), (''USDT'', ''tether''),
      (''MATIC'', ''matic-network''), (''LINK'', ''chainlink''), (''UNI'', ''uniswap''), (''AAVE'', ''aave''),
      (''COMP'', ''compound-governance-token''), (''MKR'', ''maker'')]"

definition supportedNetworks :: "string list" where
  "supportedNetworks = [''ethereum'', ''polygon'', ''arbitrum'', ''optimism'', ''base'']"

text \<open>
  The price the adapter reads from a response body: \<open>data[coinId]?.usd\<close> from the
  current-price endpoint, \<open>data.market_data?.current_price?.usd\<close> from the historical one.
\<close>

definition read_price :: "bool \<Rightarrow> string \<Rightarrow> json \<Rightarrow> js_exn + json option" where
  "read_price recent coinId data =
     (if recent
      then (case get_prop (Some data) coinId of
              Inl x \<Rightarrow> Inl x
            | Inr v \<Rightarrow> Inr (opt_prop v ''usd''))
      else (case get_prop (Some data) ''market_data'' of
              Inl x \<Rightarrow> Inl x
            | Inr v \<Rightarrow> Inr (opt_prop (opt_prop v ''current_price'') ''usd'')))"

text \<open>
  The \<open>try\<close> block of \<open>fetchRealTokenPrice\<close>: \<open>Inl\<close> is an exception thrown in it.
  For a timestamp that does not parse, \<open>hoursDiff\<close> is NaN, the historical branch is
  taken and \<open>toISOString\<close> throws a RangeError.
\<close>

definition fetchRealTokenPrice_try :: "env \<Rightarrow> string \<Rightarrow> string \<Rightarrow> string \<Rightarrow> js_exn + jsnum option" where
  "fetchRealTokenPrice_try e token network timestamp =
     (case map_of tokenMap (toUpperCase token) of
        None \<Rightarrow> Inr None
      | Some coinId \<Rightarrow>
          (case Date_parse e timestamp of
             None \<Rightarrow> Inl RangeError
           | Some requestTime \<Rightarrow>
               (let hoursDiff = jdiv (num (now e - requestTime)) (num (1000 * 60 * 60));
                    recent = jle hoursDiff (Fin 24);
                    apiUrl = (if recent then SimplePrice coinId
                              else CoinHistory coinId (requestTime div 86400000))
                in case axios_get e apiUrl of
                     Inl x \<Rightarrow> Inl x
                   | Inr data \<Rightarrow>
                       (case read_price recent coinId data of
                          Inl x \<Rightarrow> Inl x
                        | Inr price \<Rightarrow>
                            (case as_price price of
                               None \<Rightarrow> Inr None
                             | Some p \<Rightarrow> Inr (Some (round2 p)))))))"

text \<open>\<open>fetchRealTokenPrice\<close>: the \<open>catch\<close> turns every exception into \<open>null\<close>.\<close>

definition fetchRealTokenPrice :: "env \<Rightarrow> string \<Rightarrow> string \<Rightarrow> string \<Rightarrow> js_exn + jsnum option" where
  "fetchRealTokenPrice e token network timestamp =
     (case fetchRealTokenPrice_try e token network timestamp of
        Inl x \<Rightarrow> Inr None
      | Inr r \<Rightarrow> Inr r)"

record AlchemyPriceData =
  apd_price :: jsnum
  apd_timestamp :: string

definition getTokenPrice_try :: "env \<Rightarrow> string \<Rightarrow> string \<Rightarrow> string \<Rightarrow> js_exn + AlchemyPriceData option" where
  "getTokenPrice_try e token network timestamp =
     (if network \<notin> set supportedNetworks then Inr None
      else case fetchRealTokenPrice e token network timestamp of
             Inl x \<Rightarrow> Inl x
           | Inr None \<Rightarrow> Inr None
           | Inr (Some realPrice) \<Rightarrow> Inr (Some \<lparr>apd_price = realPrice, apd_timestamp = timestamp\<rparr>))"

text \<open>\<open>getTokenPrice\<close>, the adapter's price fetch: \<open>Inl\<close> would be an exception that
  leaves it, \<open>Inr None\<close> is \<open>null\<close>.\<close>

definition getTokenPrice :: "env \<Rightarrow> string \<Rightarrow> string \<Rightarrow> string \<Rightarrow> js_exn + AlchemyPriceData option" where
  "getTokenPrice e token network timestamp =
     (case getTokenPrice_try e token network timestamp of
        Inl x \<Rightarrow> Inr None
      | Inr r \<Rightarrow> Inr r)"

definition hex_digits :: string where
  "hex_digits = ''0123456789abcdefABCDEF''"

definition alnum :: string where
  "alnum = upper_letters @ lower_letters @ ''0123456789''"

text \<open>\<open>/^0x[a-fA-F0-9]{40}$/\<close>\<close>

definition isValidTokenAddress :: "string \<Rightarrow> bool" where
  "isValidTokenAddress address =
     (take 2 address = ''0x'' \<and> length address = 42 \<and> list_all (\<lambda>c. c \<in> set hex_digits) (drop 2 address))"

text \<open>\<open>/^[A-Z0-9]{2,10}$/i\<close>\<close>

definition isTokenSymbol :: "string \<Rightarrow> bool" where
  "isTokenSymbol token =
     (2 \<le> length token \<and> length token \<le> 10 \<and> list_all (\<lambda>c. c \<in> set alnum) token)"

section \<open>The cache (services/redis, middleware/cache)\<close>

text \<open>
  The cache service: \<open>r_isConnected\<close> is its flag, \<open>r_client\<close> tells whether a client
  was created, \<open>entries\<close> are the key-value pairs the server holds (it drops an entry when
  its TTL runs out, so an entry it holds is fresh), and \<open>r_rejects\<close> tells whether the
  client's commands currently fail.
\<close>

record redis =
  r_isConnected :: bool
  r_client :: bool
  entries :: "(string \<times> string) list"
  r_rejects :: bool





text \<open>
  A request to \<open>POST /price\<close>: the three fields of its body, and the errors the
  validation chain in front of the handler has recorded for it (\<open>validationResult(req)\<close>).
  The handler's fallback to the query string, which serves \<open>GET /price\<close>, is not
  modelled: the cache middleware reads the body only.
\<close>

record request =
  req_errors :: "string list"
  req_token :: "string option"
  req_network :: "string option"
  req_timestamp :: "string option"

record PriceResponse =
  pr_price :: jsnum
  pr_source :: source_type
  pr_timestamp :: string
  pr_token :: string
  pr_network :: string

text \<open>What a handler sends: a status and a body.\<close>

datatype body = ErrorBody string | PriceBody PriceResponse | CacheBody CacheData

datatype reply = Reply nat body


text \<open>What a request touches, in order.\<close>

datatype event = CacheGet string | CacheSet string | StoreRead | StoreWrite | UpstreamFetch


section \<open>The price resolver (routes/price)\<close>

text \<open>\<open>a || b\<close> on an optional text.\<close>

definition or_else :: "string option \<Rightarrow> string \<Rightarrow> string" where
  "or_else a b = (case a of None \<Rightarrow> b | Some t \<Rightarrow> if t = [] then b else t)"

text \<open>
  \<open>getPrice\<close> returns its reply, the store after it and what it touched.
  When the body has no token (\<open>undefined\<close>), the two format tests read it as the text
  \<open>undefined\<close>, which passes as a symbol; every service then fails on
  \<open>token.toUpperCase()\<close> inside its own \<open>try/catch\<close> and answers \<open>null\<close>, so the
  handler ends in its 404. The \<open>catch\<close> of the handler itself answers 500.
\<close>

definition getPrice :: "env \<Rightarrow> mongo \<Rightarrow> request \<Rightarrow> reply \<times> mongo \<times> event list" where
  "getPrice e st req =
     (if req_errors req \<noteq> [] then (Reply 400 (ErrorBody ''Validation failed''), st, [])
      else
        (let token_field = (case req_token req of None \<Rightarrow> None | Some t \<Rightarrow> if t = [] then None else Some t);
             network = or_else (req_network req) ''undefined'';
             timestamp = or_else (req_timestamp req) (now_iso e);
             isContractAddress = isValidTokenAddress (case token_field of None \<Rightarrow> ''undefined'' | Some t \<Rightarrow> t);
             isSymbol = isTokenSymbol (case token_field of None \<Rightarrow> ''undefined'' | Some t \<Rightarrow> t)
         in if \<not> isContractAddress \<and> \<not> isSymbol then (Reply 400 (ErrorBody ''Invalid token format''), st, [])
            else if network \<notin> set supportedNetworks then (Reply 400 (ErrorBody ''Unsupported network''), st, [])
            else
              (case Date_parse e timestamp of
                 None \<Rightarrow> (Reply 400 (ErrorBody ''Invalid timestamp format''), st, [])
               | Some timestampDate \<Rightarrow>
                   if now e < timestampDate
                   then (Reply 400 (ErrorBody ''Timestamp cannot be in the future''), st, [])
                   else
                     (let unixTimestamp = timestampDate div 1000 in
                      case token_field of
                        None \<Rightarrow>
                          (Reply 404 (ErrorBody ''Price data not found''), st, [StoreRead, UpstreamFetch, StoreRead])
                      | Some token \<Rightarrow>
                     (case findPriceByTimestamp st token network unixTimestamp of
                        Some existingPrice \<Rightarrow>
                          (Reply 200 (PriceBody \<lparr>pr_price = doc_price existingPrice,
                                                  pr_source = doc_source existingPrice,
                                                  pr_timestamp = doc_date existingPrice,
                                                  pr_token = doc_token existingPrice,
                                                  pr_network = doc_network existingPrice\<rparr>),
                           st, [StoreRead])
                      | None \<Rightarrow>
                          (case getTokenPrice e token network timestamp of
                             Inl x \<Rightarrow> (Reply 500 (ErrorBody ''Internal server error''), st, [StoreRead, UpstreamFetch])
                           | Inr (Some priceData) \<Rightarrow>
                               (let st' = (case createPrice st
                                                 \<lparr>doc_token = toUpperCase token, doc_network = toLowerCase network,
                                                  doc_date = timestamp, doc_timestamp = unixTimestamp,
                                                  doc_price = apd_price priceData, doc_source = alchemy\<rparr> of
                                             Inl err \<Rightarrow> st
                                           | Inr s \<Rightarrow> s)
                                in (Reply 200 (PriceBody \<lparr>pr_price = apd_price priceData,
                                                           pr_source = alchemy,
                                                           pr_timestamp = apd_timestamp priceData,
                                                           pr_token = token,
                                                           pr_network = network\<rparr>),
                                    st', [StoreRead, UpstreamFetch, StoreWrite]))
                           | Inr None \<Rightarrow>
                               (case interpolatePrice st token network unixTimestamp of
                                  Some interpolationResult \<Rightarrow>
                                    (let st' = (case createPrice st
                                                      \<lparr>doc_token = toUpperCase token, doc_network = toLowerCase network,
                                                       doc_date = timestamp, doc_timestamp = unixTimestamp,
                                                       doc_price = ir_price interpolationResult,
                                                       doc_source = interpolated\<rparr> of
                                                  Inl err \<Rightarrow> st
                                                | Inr s \<Rightarrow> s)
                                     in (Reply 200 (PriceBody \<lparr>pr_price = ir_price interpolationResult,
                                                                pr_source = interpolated,
                                                                pr_timestamp = timestamp,
                                                                pr_token = token,
                                                                pr_network = network\<rparr>),
                                         st', [StoreRead, UpstreamFetch, StoreRead, StoreWrite]))
                                | None \<Rightarrow>
                                    (Reply 404 (ErrorBody ''Price data not found''), st,
                                     [StoreRead, UpstreamFetch, StoreRead]))))))))"




section \<open>The backfill grid and batches (utils/tokenUtils, workers/priceHistoryWorker)\<close>

text \<open>One day in milliseconds.\<close>

definition day_ms :: int where
  "day_ms = 24 * 60 * 60 * 1000"

text \<open>\<open>d.setUTCHours(0, 0, 0, 0)\<close> on a time in milliseconds: the midnight that starts its
  UTC day (the floor, also before 1970).\<close>

definition setUTCHours0 :: "int \<Rightarrow> int" where
  "setUTCHours0 t = t - t mod day_ms"

text \<open>
  The loop of \<open>generateDailyTimestamps\<close>. \<open>setUTCDate(getUTCDate() + 1)\<close> moves a UTC
  date on by one calendar day, which is \<open>day_ms\<close> milliseconds. The ISO texts the source
  pushes are modelled by the times they render.
\<close>

function daily_loop :: "int \<Rightarrow> int \<Rightarrow> int list \<Rightarrow> int list" where
  "daily_loop currentDate end_date timestamps =
     (if currentDate \<le> end_date
      then daily_loop (currentDate + day_ms) end_date (timestamps @ [currentDate])
      else timestamps)"
  by pat_completeness auto
termination
  by (relation "measure (\<lambda>(c, e, ts). nat (e - c + 1))") (auto simp: day_ms_def)

declare daily_loop.simps [simp del]

text \<open>
  \<open>generateDailyTimestamps(startDate, endDate?)\<close>. An Invalid Date compares false with
  everything, so the loop body never runs when one of the two texts does not parse. An
  absent or empty \<open>endDate\<close> is the clock.
\<close>

definition end_date_of :: "env \<Rightarrow> string option \<Rightarrow> int option" where
  "end_date_of e endDate =
     (case endDate of
        None \<Rightarrow> Some (now e)
      | Some t \<Rightarrow> if t = [] then Some (now e) else Date_parse e t)"

definition generateDailyTimestamps :: "env \<Rightarrow> string \<Rightarrow> string option \<Rightarrow> int list" where
  "generateDailyTimestamps e startDate endDate =
     (let start = Date_parse e startDate;
          end_date = end_date_of e endDate
      in case (start, end_date) of
           (Some s, Some n) \<Rightarrow> daily_loop (setUTCHours0 s) (setUTCHours0 n) []
         | _ \<Rightarrow> [])"

text \<open>\<open>Math.ceil(a / b)\<close> on two counts.\<close>

definition ceil_div :: "nat \<Rightarrow> nat \<Rightarrow> nat" where
  "ceil_div a b = nat \<lceil>real a / real b\<rceil>"

definition calculateOptimalBatchSize :: "nat \<Rightarrow> nat \<Rightarrow> nat \<Rightarrow> nat" where
  "calculateOptimalBatchSize totalDays maxBatchSize minBatchSize =
     (if totalDays \<le> minBatchSize then totalDays
      else if totalDays \<le> maxBatchSize then ceil_div totalDays 2
      else max minBatchSize (min maxBatchSize (ceil_div totalDays 10)))"

text \<open>
  The batch size the worker uses for its missing timestamps: the call with the two
  default bounds, \<open>maxBatchSize = 100\<close> and \<open>minBatchSize = 10\<close>.
\<close>

definition worker_batchSize :: "'a list \<Rightarrow> nat" where
  "worker_batchSize missingTimestamps = calculateOptimalBatchSize (length missingTimestamps) 100 10"

text \<open>The size the specification gives: \<open>clamp(10, ceil(total/10), 100)\<close>.\<close>

definition spec_batchSize :: "nat \<Rightarrow> nat" where
  "spec_batchSize n = max 10 (min 100 (ceil_div n 10))"

text \<open>
  The worker's loop \<open>for (i = 0; i < n; i += batchSize)\<close> with
  \<open>batch = slice(i, i + batchSize)\<close>, as the list of its batches. With a batch size of 0
  and an index inside the list the loop never advances: that is \<open>None\<close>.
\<close>

function batch_loop :: "nat \<Rightarrow> nat \<Rightarrow> 'a list \<Rightarrow> 'a list list option" where
  "batch_loop i batchSize xs =
     (if i < length xs
      then (if batchSize = 0 then None
            else map_option (\<lambda>bs. take batchSize (drop i xs) # bs) (batch_loop (i + batchSize) batchSize xs))
      else Some [])"
  by pat_completeness auto
termination
  by (relation "measure (\<lambda>(i, b, xs). length xs - i)") auto

declare batch_loop.simps [simp del]

definition worker_batches :: "'a list \<Rightarrow> 'a list list option" where
  "worker_batches missingTimestamps = batch_loop 0 (worker_batchSize missingTimestamps) missingTimestamps"

section \<open>The job registry (routes/schedule)\<close>

record JobData =
  job_id :: string
  job_token :: string
  job_network :: string
  job_interval :: string
  job_enabled :: bool
  job_createdAt :: string
  job_lastRun :: "string option"
  job_nextRun :: "string option"

text \<open>\<open>scheduledJobs\<close>, a \<open>Map\<close> from job id to job: its entries in insertion order.\<close>

type_synonym registry = "(string \<times> JobData) list"

text \<open>\<open>Map.set\<close>: a present key keeps its place and gets the value, a new one goes last.\<close>

fun map_set :: "registry \<Rightarrow> string \<Rightarrow> JobData \<Rightarrow> registry" where
  "map_set [] k v = [(k, v)]"
| "map_set ((k', v') # rest) k v = (if k' = k then (k, v) # rest else (k', v') # map_set rest k v)"

fun findExistingJob :: "registry \<Rightarrow> string \<Rightarrow> string \<Rightarrow> string option" where
  "findExistingJob [] token network = None"
| "findExistingJob ((jobId, job) # rest) token network =
     (if toLowerCase (job_token job) = toLowerCase token \<and>
         toLowerCase (job_network job) = toLowerCase network
      then Some jobId
      else findExistingJob rest token network)"

text \<open>
  A request as \<open>scheduleJob\<close> receives it: the errors its validation chain has recorded
  (\<open>validationResult(req)\<close>) and the body.
\<close>

record schedule_request =
  sr_errors :: "string list"
  sr_token :: string
  sr_network :: string
  sr_interval :: "string option"
  sr_enabled :: "bool option"

record ScheduleResponse =
  sp_success :: bool
  sp_message :: string
  sp_jobId :: string
  sp_estimatedTime :: nat
  sp_scheduledAt :: string

text \<open>The replies of \<open>scheduleJob\<close>: 400, 409 with the existing job's id, 200.\<close>

datatype schedule_reply =
    ValidationFailed
  | JobAlreadyExists string string
  | Scheduled ScheduleResponse

definition status_of :: "schedule_reply \<Rightarrow> nat" where
  "status_of r = (case r of ValidationFailed \<Rightarrow> 400 | JobAlreadyExists m i \<Rightarrow> 409 | Scheduled s \<Rightarrow> 200)"

text \<open>
  What \<open>scheduleJob\<close> takes from outside: the id \<open>uuidv4()\<close> returns, the clock's ISO
  text now and five minutes from now, and whether the queue is available.
\<close>

record schedule_env =
  new_uuid :: string
  se_now :: string
  se_in5min :: string
  queue_available :: bool

text \<open>A job handed to the queue.\<close>

record PriceHistoryJobData =
  q_token :: string
  q_network :: string
  q_requestId :: string

text \<open>
  \<open>scheduleJob\<close> returns its reply, the registry after it and the jobs it has put on
  the queue. \<open>if (existingJobId)\<close> tests a text: an empty id counts as none.
\<close>

definition scheduleJob ::
  "schedule_env \<Rightarrow> registry \<Rightarrow> schedule_request \<Rightarrow> schedule_reply \<times> registry \<times> PriceHistoryJobData list" where
  "scheduleJob e scheduledJobs req =
     (if sr_errors req \<noteq> [] then (ValidationFailed, scheduledJobs, [])
      else
        (let token = sr_token req;
             network = sr_network req;
             interval = (case sr_interval req of None \<Rightarrow> ''0 0 * * *'' | Some i \<Rightarrow> i);
             enabled = (case sr_enabled req of None \<Rightarrow> True | Some b \<Rightarrow> b);
             existingJobId = findExistingJob scheduledJobs token network
         in case (case existingJobId of None \<Rightarrow> None | Some i \<Rightarrow> if i = [] then None else Some i) of
              Some existing \<Rightarrow>
                (JobAlreadyExists (''A job for '' @ token @ '' on '' @ network @ '' already exists'') existing,
                 scheduledJobs, [])
            | None \<Rightarrow>
                (let jobId = new_uuid e;
                     jobData = \<lparr>job_id = jobId, job_token = token, job_network = network,
                                job_interval = interval, job_enabled = enabled,
                                job_createdAt = se_now e, job_lastRun = None,
                                job_nextRun = Some (se_in5min e)\<rparr>;
                     queued = (if enabled \<and> queue_available e
                               then [\<lparr>q_token = toUpperCase token, q_network = toLowerCase network,
                                      q_requestId = jobId\<rparr>]
                               else [])
                 in (Scheduled \<lparr>sp_success = True,
                                 sp_message = ''Job scheduled successfully for '' @ token @ '' on '' @ network,
                                 sp_jobId = jobId, sp_estimatedTime = 5000, sp_scheduledAt = se_now e\<rparr>,
                     map_set scheduledJobs jobId jobData, queued))))"

text \<open>
  The body of a request to \<open>POST /schedule\<close>. Its fields are typed as the handler reads
  them: two texts, an optional text and an optional boolean.
\<close>

record schedule_body =
  sb_token :: string
  sb_network :: string
  sb_interval :: "string option"
  sb_enabled :: "bool option"

text \<open>The characters of \<open>/^[0-9\s\*\/\-,]+$/\<close>: digits, the ASCII white space, and the four
  signs.\<close>

definition cron_chars :: string where
  "cron_chars = ''0123456789*/-,'' @ [CHR '' '', CHR 0x09, CHR 0x0A, CHR 0x0B, CHR 0x0C, CHR 0x0D]"

text \<open>
  \<open>validateScheduleRequest\<close>, the validation chain in front of \<open>scheduleJob\<close>, as the
  list of the errors it records: a token of 1 to 10 characters that matches
  \<open>/^[A-Za-z0-9]+$/\<close>, a network that is one of the five tags as they are written, an
  interval, when there is one, that matches the pattern above. A failed check without
  message of its own is recorded as \<open>Invalid value\<close>. A boolean \<open>enabled\<close> passes.
\<close>

definition validateScheduleRequest :: "schedule_body \<Rightarrow> string list" where
  "validateScheduleRequest b =
     (if 1 \<le> length (sb_token b) \<and> length (sb_token b) \<le> 10 then [] else [''Invalid value'']) @
     (if sb_token b \<noteq> [] \<and> list_all (\<lambda>c. c \<in> set alnum) (sb_token b) then []
      else [''Token must be a valid alphanumeric string (1-10 characters)'']) @
     (if sb_network b \<in> set [''ethereum'', ''polygon'', ''arbitrum'', ''optimism'', ''base''] then []
      else [''Network must be one of: ethereum, polygon, arbitrum, optimism, base'']) @
     (case sb_interval b of
        None \<Rightarrow> []
      | Some i \<Rightarrow>
          if i \<noteq> [] \<and> list_all (\<lambda>c. c \<in> set cron_chars) i then []
          else [''Interval must be a valid cron expression''])"

text \<open>The route \<open>POST /schedule\<close>: \<open>validateScheduleRequest\<close>, then \<open>scheduleJob\<close>, which
  reads the errors the chain has recorded.\<close>

definition schedule_route ::
  "schedule_env \<Rightarrow> registry \<Rightarrow> schedule_body \<Rightarrow> schedule_reply \<times> registry \<times> PriceHistoryJobData list" where
  "schedule_route e scheduledJobs b =
     scheduleJob e scheduledJobs
       \<lparr>sr_errors = validateScheduleRequest b, sr_token = sb_token b, sr_network = sb_network b,
        sr_interval = sb_interval b, sr_enabled = sb_enabled b\<rparr>"

section \<open>Examples\<close>

text \<open>Two numbers agree to two decimals.\<close>

fun approx2 :: "jsnum \<Rightarrow> real \<Rightarrow> bool" where
  "approx2 (Fin r) y = (\<bar>r - y\<bar> \<le> 5 / 1000)"
| "approx2 v y = False"

text \<open>The store of the mid-gap scenario: ETH on ethereum at 2000 on 1 January 2024 and at
  2200 on 3 January 2024.\<close>

definition eth_jan1 :: price_doc where
  "eth_jan1 = \<lparr>doc_token = ''ETH'', doc_network = ''ethereum'', doc_date = ''2024-01-01T00:00:00Z'',
               doc_timestamp = 1704067200, doc_price = Fin 2000, doc_source = alchemy\<rparr>"

definition eth_jan3 :: price_doc where
  "eth_jan3 = \<lparr>doc_token = ''ETH'', doc_network = ''ethereum'', doc_date = ''2024-01-03T00:00:00Z'',
               doc_timestamp = 1704240000, doc_price = Fin 2200, doc_source = alchemy\<rparr>"

definition eth_store :: mongo where
  "eth_store = \<lparr>isConnected = True, readyState = 1, docs = [eth_jan1, eth_jan3], rejects = []\<rparr>"

text \<open>The same store when the service's flag is off although the connection is up, when
  its writes fail, and when the connection is down.\<close>

definition stale_flag_store :: mongo where
  "stale_flag_store = \<lparr>isConnected = False, readyState = 1, docs = [eth_jan1, eth_jan3], rejects = []\<rparr>"

definition flaky_store :: mongo where
  "flaky_store = \<lparr>isConnected = True, readyState = 1, docs = [eth_jan1, eth_jan3], rejects = [Save]\<rparr>"

definition down_store :: mongo where
  "down_store = \<lparr>isConnected = False, readyState = 0, docs = [eth_jan1, eth_jan3], rejects = []\<rparr>"

text \<open>A store with two prices of 0.00, as the two-decimal rounding leaves of a token worth
  less than half a cent.\<close>

definition dust_store :: mongo where
  "dust_store =
     \<lparr>isConnected = True, readyState = 1,
      docs = [\<lparr>doc_token = ''DUST'', doc_network = ''ethereum'', doc_date = ''2024-01-01T00:00:00Z'',
               doc_timestamp = 1704067200, doc_price = Fin 0, doc_source = alchemy\<rparr>,
              \<lparr>doc_token = ''DUST'', doc_network = ''ethereum'', doc_date = ''2024-01-03T00:00:00Z'',
               doc_timestamp = 1704240000, doc_price = Fin 0, doc_source = alchemy\<rparr>],
      rejects = []\<rparr>"

text \<open>Date texts and their times in milliseconds.\<close>

definition dates :: "(string \<times> int) list" where
  "dates =
     [(''2024-01-01T00:00:00Z'', 1704067200000), (''2024-01-02T00:00:00Z'', 1704153600000),
      (''2024-01-03T00:00:00Z'', 1704240000000), (''2024-01-07T00:00:00Z'', 1704585600000),
      (''2024-01-01T14:22:11Z'', 1704118931000)]"

text \<open>A cached text, standing for the JSON text of the record beside it, to which the
  environment of the examples parses it.\<close>

definition cached_text :: string where
  "cached_text = ''{price:2300.5,source:alchemy}''"

definition cached_record :: CacheData where
  "cached_record = \<lparr>cd_price = Fin (23005 / 10), cd_source = alchemy,
                     cd_timestamp = ''2024-01-01T00:00:00Z'', cd_cachedAt = ''2024-01-01T00:00:05Z''\<rparr>"

text \<open>An environment at noon of 15 June 2024 whose upstream server answers every request
  with the same outcome.\<close>

definition test_env :: "http_outcome \<Rightarrow> env" where
  "test_env out =
     \<lparr>now = 1718452800000, now_iso = ''2024-06-15T12:00:00.000Z'',
      Date_parse = map_of dates, http = (\<lambda>r. out),
      JSON_parse = map_of [(cached_text, cached_record)], JSON_stringify = (\<lambda>c. ''{}'')\<rparr>"

text \<open>The body of the historical endpoint with a price of 99.\<close>

definition history_99 :: json where
  "history_99 = JObject [(''market_data'', JObject [(''current_price'', JObject [(''usd'', JNumber (Fin 99))])])]"

definition jan1_request :: request where
  "jan1_request = \<lparr>req_errors = [], req_token = Some ''ETH'', req_network = Some ''ethereum'',
                    req_timestamp = Some ''2024-01-01T00:00:00Z''\<rparr>"

definition jan2_request :: request where
  "jan2_request = \<lparr>req_errors = [], req_token = Some ''ETH'', req_network = Some ''ethereum'',
                    req_timestamp = Some ''2024-01-02T00:00:00Z''\<rparr>"


definition empty_cache :: redis where
  "empty_cache = \<lparr>r_isConnected = True, r_client = True, entries = [], r_rejects = False\<rparr>"

text \<open>The registry after one job for USDC on ethereum, the body that made it, and two
  bodies for the same pair in other letter case.\<close>

definition usdc_job :: JobData where
  "usdc_job = \<lparr>job_id = ''job-1'', job_token = ''USDC'', job_network = ''ethereum'',
                job_interval = ''0 0 * * *'', job_enabled = True,
                job_createdAt = ''2024-06-15T12:00:00.000Z'', job_lastRun = None,
                job_nextRun = Some ''2024-06-15T12:05:00.000Z''\<rparr>"

definition usdc_registry :: registry where
  "usdc_registry = [(''job-1'', usdc_job)]"

definition schedule_at_noon :: schedule_env where
  "schedule_at_noon = \<lparr>new_uuid = ''job-2'', se_now = ''2024-06-15T12:10:00.000Z'',
                        se_in5min = ''2024-06-15T12:15:00.000Z'', queue_available = True\<rparr>"

definition schedule_first :: schedule_env where
  "schedule_first = \<lparr>new_uuid = ''job-1'', se_now = ''2024-06-15T12:00:00.000Z'',
                      se_in5min = ''2024-06-15T12:05:00.000Z'', queue_available = True\<rparr>"

definition usdc_body :: schedule_body where
  "usdc_body = \<lparr>sb_token = ''USDC'', sb_network = ''ethereum'', sb_interval = None, sb_enabled = None\<rparr>"

definition usdc_lower_body :: schedule_body where
  "usdc_lower_body = \<lparr>sb_token = ''usdc'', sb_network = ''ethereum'', sb_interval = None, sb_enabled = None\<rparr>"

definition usdc_mixed_body :: schedule_body where
  "usdc_mixed_body = \<lparr>sb_token = ''usdc'', sb_network = ''Ethereum'', sb_interval = None, sb_enabled = None\<rparr>"

section \<open>Evaluation of the string operations\<close>

lemma toLowerCase_lower [simp]:
  "toLowerCase ''ethereum'' = ''ethereum''"
  "toLowerCase ''Ethereum'' = ''ethereum''"
  "toLowerCase ''ETH'' = ''eth''"
  "toLowerCase ''eth'' = ''eth''"
  "toLowerCase ''USDC'' = ''usdc''"
  "toLowerCase ''usdc'' = ''usdc''"
  "toLowerCase ''DUST'' = ''dust''"
  by (simp_all add: toLowerCase_def lower_char_def upper_letters_def lower_letters_def)

lemma toUpperCase_upper [simp]:
  "toUpperCase ''ETH'' = ''ETH''"
  "toUpperCase ''eth'' = ''ETH''"
  "toUpperCase ''BTC'' = ''BTC''"
  "toUpperCase ''USDC'' = ''USDC''"
  "toUpperCase ''usdc'' = ''USDC''"
  "toUpperCase ''DUST'' = ''DUST''"
  by (simp_all add: toUpperCase_def upper_char_def upper_letters_def lower_letters_def)

section \<open>The interpolation engine: when it answers\<close>

text \<open>
  C2. For every token, network and target timestamp, \<open>interpolatePrice\<close> returns
  \<open>null\<close> exactly when the straddling query gives no record before the target, or no
  record after it, or two records with the same unix timestamp; in every other case it
  returns a result.
\<close>

theorem interpolatePrice_null_iff:
  "(interpolatePrice st token network queryTimestamp = None) =
     (case findClosestPrices st token network queryTimestamp of
        (None, after) \<Rightarrow> True
      | (Some before, None) \<Rightarrow> True
      | (Some before, Some after) \<Rightarrow> doc_timestamp before = doc_timestamp after)"
  by (simp add: interpolatePrice_def Let_def split: prod.splits option.splits)

section \<open>The mid-gap scenario\<close>

lemma eth_closest:
  "findClosestPrices eth_store ''ETH'' ''ethereum'' 1704153600 = (Some eth_jan1, Some eth_jan3)"
  by (simp add: findClosestPrices_def isReady_def Price_findClosestPrices_def driver_error_def
      eth_store_def matches_def eth_jan1_def eth_jan3_def Let_def)

lemma eth_confidence:
  "calculateInterpolationConfidence 1704153600 1704067200 1704240000 (Fin 2000) (Fin 2200) =
     Fin (4 / 10 * (5 / 7) + 4 / 10 * (4 / 5) + 2 / 10 * 1)"
  by (simp add: calculateInterpolationConfidence_def num_def jsub_def Let_def)

lemma eth_interpolated:
  "interpolatePrice eth_store ''ETH'' ''ethereum'' 1704153600 =
     Some \<lparr>ir_price = Fin 2100, ir_source = interpolated,
           ir_confidence = Fin (4 / 10 * (5 / 7) + 4 / 10 * (4 / 5) + 2 / 10 * 1),
           ir_before = \<lparr>dp_timestamp = 1704067200, dp_price = Fin 2000, dp_timeDiff = 86400\<rparr>,
           ir_after = \<lparr>dp_timestamp = 1704240000, dp_price = Fin 2200, dp_timeDiff = 86400\<rparr>\<rparr>"
  unfolding interpolatePrice_def eth_closest
  by (simp add: eth_jan1_def eth_jan3_def eth_confidence round2_def num_def jsub_def)

lemma eth_no_exact: "findPriceByTimestamp eth_store ''ETH'' ''ethereum'' 1704153600 = None"
  by (simp add: findPriceByTimestamp_def isReady_def Price_findOne_def driver_error_def
      eth_store_def matches_def eth_jan1_def eth_jan3_def)

lemma ETH_is_symbol: "isTokenSymbol ''ETH''"
  by (simp add: isTokenSymbol_def alnum_def upper_letters_def lower_letters_def)

lemma ethereum_supported: "''ethereum'' \<in> set supportedNetworks"
  by (simp add: supportedNetworks_def)

lemma no_response_null:
  "getTokenPrice (test_env NoResponse) ''ETH'' ''ethereum'' ''2024-01-02T00:00:00Z'' = Inr None"
  by (simp add: getTokenPrice_def getTokenPrice_try_def fetchRealTokenPrice_def
      fetchRealTokenPrice_try_def supportedNetworks_def tokenMap_def test_env_def dates_def
      axios_get_def Let_def num_def)

text \<open>
  C1, as the specification states it: resolving ETH on ethereum at 2024-01-02T00:00:00Z
  against the store with 2000.00 on 1 January and 2200.00 on 3 January, the upstream
  answering \<open>null\<close>, gives the price 2100.00, the source \<open>interpolated\<close> and a
  confidence of about 0.91. The confidence the engine computes there is not 0.91 to two
  decimals.
\<close>

theorem mid_gap_counterexample:
  "interpolatePrice eth_store ''ETH'' ''ethereum'' 1704153600 \<noteq> None \<and>
   \<not> approx2 (ir_confidence (the (interpolatePrice eth_store ''ETH'' ''ethereum'' 1704153600))) (91 / 100)"
  by (simp add: eth_interpolated)

text \<open>
  C1, amended: in that scenario the resolver answers with the price 2100.00 and the source
  \<open>interpolated\<close>, and the confidence of the interpolation is the weighted sum
  \<open>0.4 * time + 0.4 * stability + 0.2 * position\<close> computed from the straddling pair, with
  \<open>time = 1 - 2/7 = 5/7\<close> (the gap is two of the seven days), \<open>stability = 4/5\<close> and
  \<open>position = 1\<close>: that is \<open>141/175\<close>, about 0.81.
\<close>

theorem mid_gap_resolution:
  assumes "req_errors req = []"
    and "req_token req = Some ''ETH''"
    and "req_network req = Some ''ethereum''"
    and "req_timestamp req = Some ''2024-01-02T00:00:00Z''"
    and "Date_parse e ''2024-01-02T00:00:00Z'' = Some 1704153600000"
    and "1704153600000 \<le> now e"
    and "getTokenPrice e ''ETH'' ''ethereum'' ''2024-01-02T00:00:00Z'' = Inr None"
  shows "fst (getPrice e eth_store req) =
           Reply 200 (PriceBody \<lparr>pr_price = Fin 2100, pr_source = interpolated,
                                 pr_timestamp = ''2024-01-02T00:00:00Z'',
                                 pr_token = ''ETH'', pr_network = ''ethereum''\<rparr>) \<and>
         map_option ir_confidence (interpolatePrice eth_store ''ETH'' ''ethereum'' 1704153600) =
           Some (calculateInterpolationConfidence 1704153600 (doc_timestamp eth_jan1) (doc_timestamp eth_jan3)
                   (doc_price eth_jan1) (doc_price eth_jan3)) \<and>
         calculateInterpolationConfidence 1704153600 (doc_timestamp eth_jan1) (doc_timestamp eth_jan3)
             (doc_price eth_jan1) (doc_price eth_jan3) =
           Fin (4 / 10 * (5 / 7) + 4 / 10 * (4 / 5) + 2 / 10 * 1) \<and>
         approx2 (Fin (4 / 10 * (5 / 7) + 4 / 10 * (4 / 5) + 2 / 10 * 1)) (81 / 100)"
proof -
  have "fst (getPrice e eth_store req) =
          Reply 200 (PriceBody \<lparr>pr_price = Fin 2100, pr_source = interpolated,
                                pr_timestamp = ''2024-01-02T00:00:00Z'',
                                pr_token = ''ETH'', pr_network = ''ethereum''\<rparr>)"
    using assms
    by (simp add: getPrice_def or_else_def ETH_is_symbol ethereum_supported eth_no_exact
        eth_interpolated Let_def)
  moreover have "calculateInterpolationConfidence 1704153600 (doc_timestamp eth_jan1) (doc_timestamp eth_jan3)
             (doc_price eth_jan1) (doc_price eth_jan3) =
           Fin (4 / 10 * (5 / 7) + 4 / 10 * (4 / 5) + 2 / 10 * 1)"
    using eth_confidence by (simp add: eth_jan1_def eth_jan3_def)
  ultimately show ?thesis by (simp add: eth_interpolated)
qed

theorem mid_gap_resolution_witness:
  "fst (getPrice (test_env NoResponse) eth_store jan2_request) =
     Reply 200 (PriceBody \<lparr>pr_price = Fin 2100, pr_source = interpolated,
                           pr_timestamp = ''2024-01-02T00:00:00Z'',
                           pr_token = ''ETH'', pr_network = ''ethereum''\<rparr>) \<and>
   map_option ir_confidence (interpolatePrice eth_store ''ETH'' ''ethereum'' 1704153600) =
     Some (calculateInterpolationConfidence 1704153600 (doc_timestamp eth_jan1) (doc_timestamp eth_jan3)
             (doc_price eth_jan1) (doc_price eth_jan3)) \<and>
   calculateInterpolationConfidence 1704153600 (doc_timestamp eth_jan1) (doc_timestamp eth_jan3)
       (doc_price eth_jan1) (doc_price eth_jan3) =
     Fin (4 / 10 * (5 / 7) + 4 / 10 * (4 / 5) + 2 / 10 * 1) \<and>
   approx2 (Fin (4 / 10 * (5 / 7) + 4 / 10 * (4 / 5) + 2 / 10 * 1)) (81 / 100)"
  by (rule mid_gap_resolution;
      (rule no_response_null | simp add: jan2_request_def test_env_def dates_def))

section \<open>The range of the confidence\<close>

text \<open>The clamp at the end of the computation leaves a number of the unit interval, or
  NaN: \<open>Math.max\<close> and \<open>Math.min\<close> hand NaN through.\<close>

lemma confidence_NaN_or_unit:
  "calculateInterpolationConfidence q b a p1 p2 = NaN \<or>
   (\<exists>r. calculateInterpolationConfidence q b a p1 p2 = Fin r \<and> 0 \<le> r \<and> r \<le> 1)"
proof -
  have "jmin (Fin 1) (jmax (Fin 0) c) = NaN \<or>
        (\<exists>r. jmin (Fin 1) (jmax (Fin 0) c) = Fin r \<and> 0 \<le> r \<and> r \<le> 1)" for c
    by (cases c) auto
  then show ?thesis unfolding calculateInterpolationConfidence_def Let_def by blast
qed

text \<open>With a before price above 0 and a target between two distinct timestamps the
  confidence is a number of the unit interval.\<close>

lemma confidence_in_unit_interval:
  assumes "0 < p1" and "b \<le> q" and "q \<le> a" and "b < a"
  shows "\<exists>r. calculateInterpolationConfidence q b a (Fin p1) (Fin p2) = Fin r \<and> 0 \<le> r \<and> r \<le> 1"
proof -
  have "max (real_of_int q - real_of_int b) (real_of_int a - real_of_int q) \<noteq> 0"
    using assms(2,3,4) by linarith
  then show ?thesis
    using assms(1)
    by (simp add: calculateInterpolationConfidence_def num_def jsub_def Let_def)
qed

lemma dust_closest:
  "findClosestPrices dust_store ''DUST'' ''ethereum'' 1704153600 =
     (Some (docs dust_store ! 0), Some (docs dust_store ! 1))"
  by (simp add: findClosestPrices_def isReady_def Price_findClosestPrices_def driver_error_def
      dust_store_def matches_def Let_def)

text \<open>
  C8 states that every interpolated result carries a confidence between 0 and 1. With a
  before price and an after price of 0 the relative change is \<open>0 / 0\<close>, and the
  confidence of the result is NaN.
\<close>

theorem zero_prices_confidence_NaN:
  "map_option ir_confidence (interpolatePrice dust_store ''DUST'' ''ethereum'' 1704153600) = Some NaN"
  unfolding interpolatePrice_def dust_closest
  by (simp add: dust_store_def calculateInterpolationConfidence_def num_def jsub_def Let_def)

section \<open>Reads on a store that is down\<close>

lemma not_ready_reads:
  assumes "\<not> isReady st"
  shows "findPriceByTimestamp st token network ts = None"
    and "findClosestPrices st token network ts = (None, None)"
    and "interpolatePrice st token network ts = None"
  using assms by (simp_all add: findPriceByTimestamp_def findClosestPrices_def interpolatePrice_def)

text \<open>The range fetch on a connection that is not up ends in the driver's error,
  whatever the service's flag says.\<close>

lemma getPriceHistory_error_when_down:
  "readyState st \<noteq> 1 \<Longrightarrow> getPriceHistory st token network startDate endDate = Inl ConnectionError"
  by (simp add: getPriceHistory_def Price_find_def driver_error_def)

text \<open>
  C5 states that every read of the store answers \<open>null\<close> or empty, without an error,
  when the store is not connected. The exact lookup and the straddling lookup do;
  \<open>getPriceHistory\<close>, which lacks their readiness check, hands on the driver's error.
\<close>

theorem getPriceHistory_throws_when_down:
  "findPriceByTimestamp down_store ''ETH'' ''ethereum'' 1704067200 = None \<and>
   findClosestPrices down_store ''ETH'' ''ethereum'' 1704153600 = (None, None) \<and>
   getPriceHistory down_store ''ETH'' ''ethereum'' 1704067200000 1704240000000 = Inl ConnectionError"
  by (simp add: findPriceByTimestamp_def findClosestPrices_def isReady_def getPriceHistory_def
      Price_find_def driver_error_def down_store_def)

section \<open>The batches of the backfill worker\<close>

lemma ceil_div_eq:
  assumes "0 < b"
  shows "ceil_div a b = (a + b - 1) div b"
proof -
  define q where "q = (a + b - 1) div b"
  define r where "r = (a + b - 1) mod b"
  have "a + b - 1 = q * b + r" by (simp add: q_def r_def)
  moreover have "r < b" using assms by (simp add: r_def)
  ultimately have 1: "a \<le> q * b" and 2: "q * b < a + b" using assms by linarith+
  have "real a \<le> real (q * b)" using 1 by (rule iffD2[OF of_nat_le_iff])
  then have le: "real a / real b \<le> real q" using assms by (simp add: pos_divide_le_eq)
  have "real (q * b) < real (a + b)" using 2 by (rule iffD2[OF of_nat_less_iff])
  then have "(real q - 1) * real b < real a" by (simp add: algebra_simps)
  then have gt: "real q - 1 < real a / real b" using assms by (simp add: pos_less_divide_eq)
  have "\<lceil>real a / real b\<rceil> = int q"
    by (rule ceiling_unique) (use le gt in simp_all)
  then show ?thesis by (simp add: ceil_div_def q_def)
qed

lemma ceil_div_10: "ceil_div n 10 = (n + 9) div 10"
  by (simp add: ceil_div_eq)

lemma ceil_div_2: "ceil_div n 2 = (n + 1) div 2"
  by (simp add: ceil_div_eq)

lemma batch_size_cases:
  "calculateOptimalBatchSize n 100 10 =
     (if n \<le> 10 then n else if n \<le> 100 then ceil_div n 2 else spec_batchSize n)"
  by (simp add: calculateOptimalBatchSize_def spec_batchSize_def)

lemma spec_batchSize_small: "n \<le> 100 \<Longrightarrow> spec_batchSize n = 10"
  unfolding spec_batchSize_def ceil_div_10 by simp

lemma batch_size_agrees_iff:
  "(calculateOptimalBatchSize n 100 10 = spec_batchSize n) = (n = 10 \<or> n = 19 \<or> n = 20 \<or> 100 < n)"
proof -
  consider "n \<le> 10" | "10 < n" "n \<le> 100" | "100 < n" by linarith
  then show ?thesis
  proof cases
    case 1
    then show ?thesis by (simp add: batch_size_cases spec_batchSize_small)
  next
    case 2
    have "((n + 1) div 2 = 10) = (n = 19 \<or> n = 20)" by linarith
    with 2 show ?thesis by (simp add: batch_size_cases spec_batchSize_small ceil_div_2)
  next
    case 3
    then show ?thesis by (simp add: batch_size_cases)
  qed
qed

lemma batch_size_pos: "0 < n \<Longrightarrow> 0 < calculateOptimalBatchSize n 100 10"
  unfolding batch_size_cases spec_batchSize_def ceil_div_2 by auto

lemma batch_loop_props:
  assumes "0 < b"
  shows "\<exists>bss. batch_loop i b xs = Some bss \<and> concat bss = drop i xs \<and>
           (\<forall>bs\<in>set bss. bs \<noteq> [] \<and> length bs \<le> b) \<and>
           (\<forall>bs\<in>set (butlast bss). length bs = b)"
  using assms
proof (induction i b xs rule: batch_loop.induct)
  case (1 i b xs)
  show ?case
  proof (cases "i < length xs")
    case False
    then show ?thesis by (subst batch_loop.simps) simp
  next
    case True
    from 1 True obtain bss where r: "batch_loop (i + b) b xs = Some bss"
      and c: "concat bss = drop (i + b) xs"
      and l: "\<forall>bs\<in>set bss. bs \<noteq> [] \<and> length bs \<le> b"
      and f: "\<forall>bs\<in>set (butlast bss). length bs = b"
      by auto
    let ?h = "take b (drop i xs)"
    have s: "batch_loop i b xs = Some (?h # bss)"
      using True 1(2) r by (subst batch_loop.simps) simp
    have c': "concat (?h # bss) = drop i xs"
      using c by (simp add: add.commute[of i b] drop_drop[symmetric] del: drop_drop)
    have h: "?h \<noteq> [] \<and> length ?h \<le> b" using True 1(2) by simp
    have full: "bss \<noteq> [] \<Longrightarrow> length ?h = b"
    proof -
      assume "bss \<noteq> []"
      then have "i + b < length xs" using r
        by (subst (asm) batch_loop.simps) (auto split: if_splits)
      then show ?thesis by simp
    qed
    show ?thesis using s c' h l f full by auto
  qed
qed

text \<open>
  C4, as the specification states it: the worker's batch size is
  \<open>clamp(10, ceil(total/10), 100)\<close> for every number of missing timestamps. For 50
  missing timestamps the worker takes batches of 25 and for 5 it takes one batch of 5,
  where the clamp gives 10.
\<close>

theorem batch_size_counterexample:
  "worker_batchSize (replicate 50 ''t'') = 25 \<and> spec_batchSize 50 = 10 \<and>
   worker_batchSize (replicate 5 ''t'') = 5 \<and> spec_batchSize 5 = 10"
  by (simp add: worker_batchSize_def batch_size_cases ceil_div_2 spec_batchSize_small)

text \<open>
  C4, amended: the batch size is \<open>total\<close> when \<open>total \<le> 10\<close>, \<open>ceil(total/2)\<close> when
  \<open>10 < total \<le> 100\<close>, and \<open>clamp(10, ceil(total/10), 100)\<close> when \<open>total > 100\<close>; it
  is the clamp exactly for the totals 10, 19, 20 and those above 100. The worker's loop
  ends and cuts the missing timestamps, in order, into batches that are not empty and not
  longer than that size, each but the last of exactly that size.
\<close>

theorem worker_batches_sizes:
  "worker_batchSize xs =
     (if length xs \<le> 10 then length xs
      else if length xs \<le> 100 then ceil_div (length xs) 2
      else spec_batchSize (length xs)) \<and>
   (worker_batchSize xs = spec_batchSize (length xs)) =
     (length xs = 10 \<or> length xs = 19 \<or> length xs = 20 \<or> 100 < length xs) \<and>
   (\<exists>bss. worker_batches xs = Some bss \<and> concat bss = xs \<and>
          (\<forall>bs\<in>set bss. bs \<noteq> [] \<and> length bs \<le> worker_batchSize xs) \<and>
          (\<forall>bs\<in>set (butlast bss). length bs = worker_batchSize xs))"
proof -
  have "\<exists>bss. worker_batches xs = Some bss \<and> concat bss = xs \<and>
          (\<forall>bs\<in>set bss. bs \<noteq> [] \<and> length bs \<le> worker_batchSize xs) \<and>
          (\<forall>bs\<in>set (butlast bss). length bs = worker_batchSize xs)"
  proof (cases "xs = []")
    case True
    then show ?thesis unfolding worker_batches_def by (subst batch_loop.simps) simp
  next
    case False
    then have "0 < worker_batchSize xs" by (simp add: worker_batchSize_def batch_size_pos)
    from batch_loop_props[OF this, of 0 xs] show ?thesis by (simp add: worker_batches_def)
  qed
  then show ?thesis
    unfolding worker_batchSize_def using batch_size_cases batch_size_agrees_iff by simp
qed

theorem worker_batches_sizes_witness:
  "worker_batchSize ''abcdefghijkl'' = 6 \<and> spec_batchSize 12 = 10 \<and>
   worker_batches ''abcdefghijkl'' = Some [''abcdef'', ''ghijkl'']"
  using worker_batches_sizes [of "''abcdefghijkl''"]
  by (simp add: worker_batches_def worker_batchSize_def batch_size_cases ceil_div_2
      spec_batchSize_small batch_loop.simps)

section \<open>The daily grid\<close>

lemma day_ms_pos: "0 < day_ms"
  by (simp add: day_ms_def)

lemma day_step:
  assumes "c \<le> e"
  shows "nat ((e - c) div day_ms + 1) =
           Suc (if c + day_ms \<le> e then nat ((e - (c + day_ms)) div day_ms + 1) else 0)"
proof (cases "c + day_ms \<le> e")
  case True
  have "(e - (c + day_ms)) div day_ms = ((e - c) + day_ms * (- 1)) div day_ms"
    by (simp add: algebra_simps)
  also have "\<dots> = - 1 + (e - c) div day_ms"
    using day_ms_pos by (subst div_mult_self2) simp_all
  finally have 1: "(e - (c + day_ms)) div day_ms = (e - c) div day_ms - 1" by simp
  have "0 \<le> (e - (c + day_ms)) div day_ms"
    using True day_ms_pos by (simp add: pos_imp_zdiv_nonneg_iff)
  with 1 True show ?thesis by simp
next
  case False
  then have "(e - c) div day_ms = 0" using assms by (simp add: div_pos_pos_trivial)
  with False show ?thesis by simp
qed

lemma map_shift:
  "(acc @ [c]) @ map (\<lambda>k. c + day_ms + int k * day_ms) [0..<n] =
     acc @ map (\<lambda>k. c + int k * day_ms) [0..<Suc n]"
proof -
  have "[0..<Suc n] = 0 # map Suc [0..<n]"
    by (simp add: upt_conv_Cons map_Suc_upt del: upt_Suc)
  then have "map (\<lambda>k. c + int k * day_ms) [0..<Suc n] =
               c # map (\<lambda>k. c + day_ms + int k * day_ms) [0..<n]"
    by (simp add: algebra_simps comp_def del: upt_Suc)
  then show ?thesis by simp
qed

lemma daily_loop_eq:
  "daily_loop c e acc =
     acc @ map (\<lambda>k. c + int k * day_ms) [0..<(if c \<le> e then nat ((e - c) div day_ms + 1) else 0)]"
proof (induction c e acc rule: daily_loop.induct)
  case (1 c e acc)
  show ?case
  proof (cases "c \<le> e")
    case False
    then show ?thesis by (subst daily_loop.simps) simp
  next
    case True
    let ?n' = "(if c + day_ms \<le> e then nat ((e - (c + day_ms)) div day_ms + 1) else 0)"
    have "daily_loop c e acc = (acc @ [c]) @ map (\<lambda>k. c + day_ms + int k * day_ms) [0..<?n']"
      using 1[OF True] True by (subst daily_loop.simps) simp
    also have "\<dots> = acc @ map (\<lambda>k. c + int k * day_ms) [0..<Suc ?n']"
      by (rule map_shift)
    finally show ?thesis using True day_step[OF True] by simp
  qed
qed

lemma setUTCHours0_eq: "setUTCHours0 t = day_ms * (t div day_ms)"
  unfolding setUTCHours0_def by (simp add: minus_mod_eq_mult_div)

lemma setUTCHours0_mono: "s \<le> n \<Longrightarrow> setUTCHours0 s \<le> setUTCHours0 n"
  unfolding setUTCHours0_eq using day_ms_pos by (simp add: zdiv_mono1)

lemma midnight_gap: "(setUTCHours0 n - setUTCHours0 s) div day_ms = n div day_ms - s div day_ms"
proof -
  have "setUTCHours0 n - setUTCHours0 s = day_ms * (n div day_ms - s div day_ms)"
    unfolding setUTCHours0_eq by (simp add: algebra_simps)
  then show ?thesis using day_ms_pos by simp
qed

text \<open>
  C9. For a start date and an end date that parse, the start not after the end, with
  \<open>D0\<close> and \<open>Dn\<close> the UTC midnights of their days, the grid has \<open>(Dn - D0)/1d + 1\<close>
  timestamps, the k-th being \<open>D0 + k\<close> days: it runs from \<open>D0\<close> to \<open>Dn\<close>, every
  timestamp is a UTC midnight, and the order is strictly ascending.
\<close>

theorem daily_grid:
  assumes "Date_parse e startDate = Some s"
    and "end_date_of e endDate = Some n"
    and "s \<le> n"
  shows "int (length (generateDailyTimestamps e startDate endDate)) =
           (setUTCHours0 n - setUTCHours0 s) div day_ms + 1 \<and>
         generateDailyTimestamps e startDate endDate =
           map (\<lambda>k. setUTCHours0 s + int k * day_ms)
               [0..<length (generateDailyTimestamps e startDate endDate)] \<and>
         hd (generateDailyTimestamps e startDate endDate) = setUTCHours0 s \<and>
         last (generateDailyTimestamps e startDate endDate) = setUTCHours0 n \<and>
         (\<forall>t\<in>set (generateDailyTimestamps e startDate endDate). t mod day_ms = 0) \<and>
         sorted_wrt (<) (generateDailyTimestamps e startDate endDate)"
proof -
  let ?D0 = "setUTCHours0 s" and ?Dn = "setUTCHours0 n"
  let ?m = "nat ((?Dn - ?D0) div day_ms + 1)"
  let ?f = "\<lambda>k. ?D0 + int k * day_ms"
  have le: "?D0 \<le> ?Dn" using assms(3) by (rule setUTCHours0_mono)
  have g: "generateDailyTimestamps e startDate endDate = map ?f [0..<?m]"
    using assms(1,2) le by (simp add: generateDailyTimestamps_def daily_loop_eq)
  have nn: "0 \<le> (?Dn - ?D0) div day_ms"
    using le day_ms_pos by (simp add: pos_imp_zdiv_nonneg_iff)
  then have m: "int ?m = (?Dn - ?D0) div day_ms + 1" and mpos: "0 < ?m" by simp_all
  have len: "length (generateDailyTimestamps e startDate endDate) = ?m" by (simp add: g)
  have hd: "hd (map ?f [0..<?m]) = ?D0"
    using mpos by (simp add: hd_map upt_conv_Cons del: upt_Suc)
  have "last (map ?f [0..<?m]) = ?f (?m - 1)"
    using mpos by (simp add: last_map last_upt)
  also have "int (?m - 1) = (?Dn - ?D0) div day_ms" using nn by simp
  then have "?f (?m - 1) = ?D0 + ((?Dn - ?D0) div day_ms) * day_ms" by simp
  also have "\<dots> = ?Dn"
    unfolding midnight_gap by (simp add: setUTCHours0_eq algebra_simps)
  finally have last: "last (map ?f [0..<?m]) = ?Dn" .
  have mult: "\<forall>t\<in>set (map ?f [0..<?m]). t mod day_ms = 0"
    by (auto simp: setUTCHours0_eq)
  have "sorted_wrt (\<lambda>x y. ?f x < ?f y) [0..<?m]"
    by (rule sorted_wrt_mono_rel[of _ "(<)"]) (use day_ms_pos in auto)
  then have sorted: "sorted_wrt (<) (map ?f [0..<?m])" by (simp add: sorted_wrt_map)
  show ?thesis
    unfolding len unfolding g using m hd last mult sorted by simp
qed

theorem daily_grid_witness:
  "generateDailyTimestamps (test_env NoResponse) ''2024-01-01T14:22:11Z'' (Some ''2024-01-07T00:00:00Z'') =
     [1704067200000, 1704153600000, 1704240000000, 1704326400000, 1704412800000,
      1704499200000, 1704585600000] \<and>
   (setUTCHours0 1704585600000 - setUTCHours0 1704118931000) div day_ms + 1 = 7"
  using daily_grid [of "test_env NoResponse" "''2024-01-01T14:22:11Z''" 1704118931000
      "Some ''2024-01-07T00:00:00Z''" 1704585600000]
  by (simp add: generateDailyTimestamps_def end_date_of_def test_env_def dates_def
      setUTCHours0_def day_ms_def daily_loop.simps)

text \<open>A date text that does not parse gives the empty grid.\<close>

lemma generateDailyTimestamps_invalid:
  "Date_parse e startDate = None \<or> end_date_of e endDate = None \<Longrightarrow>
     generateDailyTimestamps e startDate endDate = []"
  by (auto simp: generateDailyTimestamps_def split: option.splits)

section \<open>The upstream adapter: failures\<close>


lemma fetchRealTokenPrice_never_throws:
  "\<exists>r. fetchRealTokenPrice e token network timestamp = Inr r"
  by (simp add: fetchRealTokenPrice_def split: sum.splits)








text \<open>A body of the expected shape gives its price.\<close>

lemma upstream_99:
  "getTokenPrice (test_env (Response 200 history_99)) ''ETH'' ''ethereum'' ''2024-01-02T00:00:00Z'' =
     Inr (Some \<lparr>apd_price = Fin 99, apd_timestamp = ''2024-01-02T00:00:00Z''\<rparr>)"
  "getTokenPrice (test_env (Response 200 history_99)) ''ETH'' ''ethereum'' ''2024-01-01T00:00:00Z'' =
     Inr (Some \<lparr>apd_price = Fin 99, apd_timestamp = ''2024-01-01T00:00:00Z''\<rparr>)"
  by (simp_all add: getTokenPrice_def getTokenPrice_try_def fetchRealTokenPrice_def
      fetchRealTokenPrice_try_def supportedNetworks_def tokenMap_def test_env_def dates_def
      axios_get_def Let_def num_def read_price_def history_99_def round2_def)

section \<open>The job registry: a second create\<close>

lemma findExistingJob_finds:
  assumes "(jobId, job) \<in> set reg"
    and "toLowerCase (job_token job) = toLowerCase token"
    and "toLowerCase (job_network job) = toLowerCase network"
  shows "\<exists>i. findExistingJob reg token network = Some i"
  using assms by (induction reg) auto

lemma findExistingJob_sound:
  assumes "findExistingJob reg token network = Some i"
  shows "\<exists>job. (i, job) \<in> set reg \<and>
           toLowerCase (job_token job) = toLowerCase token \<and>
           toLowerCase (job_network job) = toLowerCase network"
  using assms by (induction reg) (auto split: if_splits)

text \<open>
  The handler by itself: for a request without validation errors and a registry whose ids
  are not empty, a record that matches up to letter case makes it answer 409 with the id
  of a matching record, the registry as before and nothing queued.
\<close>

lemma scheduleJob_duplicate:
  assumes "sr_errors req = []"
    and "(jobId, job) \<in> set scheduledJobs"
    and "toLowerCase (job_token job) = toLowerCase (sr_token req)"
    and "toLowerCase (job_network job) = toLowerCase (sr_network req)"
    and "\<forall>p\<in>set scheduledJobs. fst p \<noteq> []"
  shows "\<exists>message existing job'.
           scheduleJob e scheduledJobs req = (JobAlreadyExists message existing, scheduledJobs, []) \<and>
           status_of (JobAlreadyExists message existing) = 409 \<and>
           (existing, job') \<in> set scheduledJobs \<and>
           toLowerCase (job_token job') = toLowerCase (sr_token req) \<and>
           toLowerCase (job_network job') = toLowerCase (sr_network req) \<and>
           ((\<forall>p\<in>set scheduledJobs.
               toLowerCase (job_token (snd p)) = toLowerCase (sr_token req) \<and>
               toLowerCase (job_network (snd p)) = toLowerCase (sr_network req) \<longrightarrow> fst p = jobId)
            \<longrightarrow> existing = jobId)"
proof -
  from findExistingJob_finds[OF assms(2,3,4)]
  obtain i where i: "findExistingJob scheduledJobs (sr_token req) (sr_network req) = Some i" ..
  from findExistingJob_sound[OF i]
  obtain job' where j: "(i, job') \<in> set scheduledJobs"
    "toLowerCase (job_token job') = toLowerCase (sr_token req)"
    "toLowerCase (job_network job') = toLowerCase (sr_network req)" by blast
  from j(1) assms(5) have ne: "i \<noteq> []" by auto
  have "scheduleJob e scheduledJobs req =
          (JobAlreadyExists (''A job for '' @ sr_token req @ '' on '' @ sr_network req @ '' already exists'') i,
           scheduledJobs, [])"
    using assms(1) i ne by (simp add: scheduleJob_def Let_def)
  moreover have "(\<forall>p\<in>set scheduledJobs.
               toLowerCase (job_token (snd p)) = toLowerCase (sr_token req) \<and>
               toLowerCase (job_network (snd p)) = toLowerCase (sr_network req) \<longrightarrow> fst p = jobId)
            \<longrightarrow> i = jobId"
    using j by auto
  ultimately show ?thesis using j by (auto simp: status_of_def)
qed

text \<open>A body that passes the chain names one of the five tags, which are lowercase.\<close>

lemma valid_network:
  assumes "validateScheduleRequest b = []"
  shows "sb_network b \<in> set [''ethereum'', ''polygon'', ''arbitrum'', ''optimism'', ''base'']"
    and "toLowerCase (sb_network b) = sb_network b"
proof -
  show 1: "sb_network b \<in> set [''ethereum'', ''polygon'', ''arbitrum'', ''optimism'', ''base'']"
    using assms by (simp add: validateScheduleRequest_def split: if_splits)
  have "toLowerCase n = n"
    if "n \<in> set [''ethereum'', ''polygon'', ''arbitrum'', ''optimism'', ''base'']" for n
    using that by (auto simp: toLowerCase_def lower_char_def upper_letters_def lower_letters_def)
  with 1 show "toLowerCase (sb_network b) = sb_network b" by blast
qed

lemma invalid_network_refused:
  assumes "sb_network b \<notin> set [''ethereum'', ''polygon'', ''arbitrum'', ''optimism'', ''base'']"
  shows "schedule_route e scheduledJobs b = (ValidationFailed, scheduledJobs, [])"
  using assms by (simp add: schedule_route_def scheduleJob_def validateScheduleRequest_def)

text \<open>
  C10, as the specification states it: a second create for the same pair in other letter
  case, as \<open>(usdc, Ethereum)\<close> after \<open>(USDC, ethereum)\<close>, fails with AlreadyExists. The
  handler's comparison does find the record for that pair, but the route answers this
  request 400: its validation chain takes the network tags as they are written.
\<close>

theorem second_create_counterexample:
  "findExistingJob usdc_registry (sb_token usdc_mixed_body) (sb_network usdc_mixed_body) = Some ''job-1'' \<and>
   schedule_route schedule_at_noon usdc_registry usdc_mixed_body = (ValidationFailed, usdc_registry, []) \<and>
   status_of ValidationFailed = 400"
  by (simp add: usdc_registry_def usdc_job_def usdc_mixed_body_def schedule_route_def
      scheduleJob_def validateScheduleRequest_def status_of_def)

text \<open>
  C10, amended: for every existing schedule record, a second create whose body passes
  validation, so that its network is one of the five lowercase tags, and whose token and
  network equal the record's compared case-insensitively, as \<open>(usdc, ethereum)\<close>
  after \<open>(USDC, ethereum)\<close>, fails with AlreadyExists (409) and reports the id of a
  record for that pair, which is the id of the existing record when the registry holds
  one record per pair; the registry is left unchanged and nothing is queued. A body whose
  network is not one of the five tags as written, as \<open>Ethereum\<close>, is refused by
  validation (400), the registry unchanged as well. The ids of the registry are not empty,
  as those \<open>uuidv4\<close> makes.
\<close>

theorem second_create_rejected:
  "(validateScheduleRequest b = [] \<and>
    (jobId, job) \<in> set scheduledJobs \<and>
    toLowerCase (job_token job) = toLowerCase (sb_token b) \<and>
    toLowerCase (job_network job) = toLowerCase (sb_network b) \<and>
    (\<forall>p\<in>set scheduledJobs. fst p \<noteq> [])
    \<longrightarrow> (\<exists>message existing job'.
           schedule_route e scheduledJobs b = (JobAlreadyExists message existing, scheduledJobs, []) \<and>
           status_of (JobAlreadyExists message existing) = 409 \<and>
           (existing, job') \<in> set scheduledJobs \<and>
           toLowerCase (job_token job') = toLowerCase (sb_token b) \<and>
           toLowerCase (job_network job') = sb_network b \<and>
           ((\<forall>p\<in>set scheduledJobs.
               toLowerCase (job_token (snd p)) = toLowerCase (sb_token b) \<and>
               toLowerCase (job_network (snd p)) = toLowerCase (sb_network b) \<longrightarrow> fst p = jobId)
            \<longrightarrow> existing = jobId))) \<and>
   (sb_network b \<notin> set [''ethereum'', ''polygon'', ''arbitrum'', ''optimism'', ''base'']
    \<longrightarrow> schedule_route e scheduledJobs b = (ValidationFailed, scheduledJobs, []) \<and>
        status_of ValidationFailed = 400)"
proof (intro conjI impI)
  assume a: "validateScheduleRequest b = [] \<and>
    (jobId, job) \<in> set scheduledJobs \<and>
    toLowerCase (job_token job) = toLowerCase (sb_token b) \<and>
    toLowerCase (job_network job) = toLowerCase (sb_network b) \<and>
    (\<forall>p\<in>set scheduledJobs. fst p \<noteq> [])"
  let ?req = "\<lparr>sr_errors = validateScheduleRequest b, sr_token = sb_token b, sr_network = sb_network b,
               sr_interval = sb_interval b, sr_enabled = sb_enabled b\<rparr>"
  from a have v: "validateScheduleRequest b = []" by simp
  have "\<exists>message existing job'.
           scheduleJob e scheduledJobs ?req = (JobAlreadyExists message existing, scheduledJobs, []) \<and>
           status_of (JobAlreadyExists message existing) = 409 \<and>
           (existing, job') \<in> set scheduledJobs \<and>
           toLowerCase (job_token job') = toLowerCase (sr_token ?req) \<and>
           toLowerCase (job_network job') = toLowerCase (sr_network ?req) \<and>
           ((\<forall>p\<in>set scheduledJobs.
               toLowerCase (job_token (snd p)) = toLowerCase (sr_token ?req) \<and>
               toLowerCase (job_network (snd p)) = toLowerCase (sr_network ?req) \<longrightarrow> fst p = jobId)
            \<longrightarrow> existing = jobId)"
    by (rule scheduleJob_duplicate [where job = job]) (use a in simp_all)
  then show "\<exists>message existing job'.
           schedule_route e scheduledJobs b = (JobAlreadyExists message existing, scheduledJobs, []) \<and>
           status_of (JobAlreadyExists message existing) = 409 \<and>
           (existing, job') \<in> set scheduledJobs \<and>
           toLowerCase (job_token job') = toLowerCase (sb_token b) \<and>
           toLowerCase (job_network job') = sb_network b \<and>
           ((\<forall>p\<in>set scheduledJobs.
               toLowerCase (job_token (snd p)) = toLowerCase (sb_token b) \<and>
               toLowerCase (job_network (snd p)) = toLowerCase (sb_network b) \<longrightarrow> fst p = jobId)
            \<longrightarrow> existing = jobId)"
    unfolding schedule_route_def by (simp add: valid_network(2) [OF v])
next
  assume "sb_network b \<notin> set [''ethereum'', ''polygon'', ''arbitrum'', ''optimism'', ''base'']"
  then show "schedule_route e scheduledJobs b = (ValidationFailed, scheduledJobs, [])"
    by (rule invalid_network_refused)
next
  show "status_of ValidationFailed = 400" by (simp add: status_of_def)
qed

lemma usdc_lower_valid: "validateScheduleRequest usdc_lower_body = []"
  by (simp add: validateScheduleRequest_def usdc_lower_body_def alnum_def upper_letters_def
      lower_letters_def)

theorem second_create_rejected_witness:
  "schedule_route schedule_at_noon usdc_registry usdc_lower_body =
     (JobAlreadyExists ''A job for usdc on ethereum already exists'' ''job-1'', usdc_registry, []) \<and>
   schedule_route schedule_at_noon usdc_registry usdc_mixed_body = (ValidationFailed, usdc_registry, [])"
  using second_create_rejected [of usdc_lower_body "''job-1''" usdc_job usdc_registry schedule_at_noon]
    second_create_rejected [of usdc_mixed_body "''job-1''" usdc_job usdc_registry schedule_at_noon]
    usdc_lower_valid
  by (simp add: schedule_route_def scheduleJob_def Let_def usdc_lower_body_def usdc_mixed_body_def
      usdc_registry_def usdc_job_def validateScheduleRequest_def)

text \<open>The registry of the example is the one a first create leaves.\<close>

lemma first_schedule:
  "schedule_route schedule_first [] usdc_body =
     (Scheduled \<lparr>sp_success = True, sp_message = ''Job scheduled successfully for USDC on ethereum'',
                 sp_jobId = ''job-1'', sp_estimatedTime = 5000, sp_scheduledAt = ''2024-06-15T12:00:00.000Z''\<rparr>,
      usdc_registry,
      [\<lparr>q_token = ''USDC'', q_network = ''ethereum'', q_requestId = ''job-1''\<rparr>])"
  by (simp add: schedule_route_def scheduleJob_def validateScheduleRequest_def schedule_first_def
      usdc_body_def usdc_registry_def usdc_job_def Let_def alnum_def upper_letters_def lower_letters_def)

section \<open>The cache in front of the resolver\<close>




section \<open>The write-through of the resolver\<close>

lemma supported_not_empty: "network \<in> set supportedNetworks \<Longrightarrow> network \<noteq> []"
  by (auto simp: supportedNetworks_def)

text \<open>
  C7. For a request that passes the handler's checks and has no exact price in the
  store: when the upstream fetch gives a price and the insert of it fails, and when the
  upstream gives nothing, the interpolation gives a price and the insert of that fails,
  the resolver still answers 200 with the price and its source, whatever the error of the
  insert is; the store is as before.
\<close>

theorem write_failure_not_surfaced:
  assumes "req_errors req = []"
    and "req_token req = Some token" and "token \<noteq> []"
    and "isValidTokenAddress token \<or> isTokenSymbol token"
    and "req_network req = Some network" and "network \<in> set supportedNetworks"
    and "timestamp = or_else (req_timestamp req) (now_iso e)"
    and "Date_parse e timestamp = Some timestampDate" and "timestampDate \<le> now e"
    and "findPriceByTimestamp st token network (timestampDate div 1000) = None"
  shows "(getTokenPrice e token network timestamp = Inr (Some priceData) \<and>
          createPrice st \<lparr>doc_token = toUpperCase token, doc_network = toLowerCase network,
                          doc_date = timestamp, doc_timestamp = timestampDate div 1000,
                          doc_price = apd_price priceData, doc_source = alchemy\<rparr> = Inl err
          \<longrightarrow> getPrice e st req =
                (Reply 200 (PriceBody \<lparr>pr_price = apd_price priceData, pr_source = alchemy,
                                      pr_timestamp = apd_timestamp priceData,
                                      pr_token = token, pr_network = network\<rparr>),
                 st, [StoreRead, UpstreamFetch, StoreWrite])) \<and>
         (getTokenPrice e token network timestamp = Inr None \<and>
          interpolatePrice st token network (timestampDate div 1000) = Some interpolationResult \<and>
          createPrice st \<lparr>doc_token = toUpperCase token, doc_network = toLowerCase network,
                          doc_date = timestamp, doc_timestamp = timestampDate div 1000,
                          doc_price = ir_price interpolationResult, doc_source = interpolated\<rparr> = Inl err
          \<longrightarrow> getPrice e st req =
                (Reply 200 (PriceBody \<lparr>pr_price = ir_price interpolationResult, pr_source = interpolated,
                                      pr_timestamp = timestamp,
                                      pr_token = token, pr_network = network\<rparr>),
                 st, [StoreRead, UpstreamFetch, StoreRead, StoreWrite]))"
proof -
  have n: "or_else (req_network req) ''undefined'' = network"
    using assms(5,6) supported_not_empty by (simp add: or_else_def)
  show ?thesis
    using assms n by (auto simp: getPrice_def Let_def)
qed

text \<open>
  Three failing inserts: the connection is down, the key is already present (the exact
  lookup was skipped because the service's flag is off), and the driver rejects the write.
\<close>

lemma createPrice_down:
  "createPrice down_store d = Inl ConnectionError"
  by (simp add: createPrice_def Price_save_def driver_error_def down_store_def Let_def)

lemma createPrice_flaky:
  "createPrice flaky_store d = Inl OperationError"
  by (simp add: createPrice_def Price_save_def driver_error_def flaky_store_def Let_def)

lemma createPrice_duplicate:
  "createPrice stale_flag_store
     \<lparr>doc_token = ''ETH'', doc_network = ''ethereum'', doc_date = ''2024-01-01T00:00:00Z'',
      doc_timestamp = 1704067200, doc_price = Fin 99, doc_source = alchemy\<rparr> = Inl AlreadyExistsError"
  by (simp add: createPrice_def Price_save_def driver_error_def stale_flag_store_def Let_def
      matches_def eth_jan1_def eth_jan3_def)

lemma flaky_interpolated:
  "interpolatePrice flaky_store ''ETH'' ''ethereum'' 1704153600 =
     interpolatePrice eth_store ''ETH'' ''ethereum'' 1704153600"
  by (simp add: interpolatePrice_def findClosestPrices_def isReady_def Price_findClosestPrices_def
      driver_error_def flaky_store_def eth_store_def)

lemma flaky_no_exact: "findPriceByTimestamp flaky_store ''ETH'' ''ethereum'' 1704153600 = None"
  by (simp add: findPriceByTimestamp_def isReady_def Price_findOne_def driver_error_def
      flaky_store_def matches_def eth_jan1_def eth_jan3_def)

theorem write_failure_not_surfaced_witness:
  "getPrice (test_env (Response 200 history_99)) down_store jan2_request =
     (Reply 200 (PriceBody \<lparr>pr_price = Fin 99, pr_source = alchemy,
                           pr_timestamp = ''2024-01-02T00:00:00Z'',
                           pr_token = ''ETH'', pr_network = ''ethereum''\<rparr>),
      down_store, [StoreRead, UpstreamFetch, StoreWrite]) \<and>
   getPrice (test_env (Response 200 history_99)) stale_flag_store jan1_request =
     (Reply 200 (PriceBody \<lparr>pr_price = Fin 99, pr_source = alchemy,
                           pr_timestamp = ''2024-01-01T00:00:00Z'',
                           pr_token = ''ETH'', pr_network = ''ethereum''\<rparr>),
      stale_flag_store, [StoreRead, UpstreamFetch, StoreWrite]) \<and>
   getPrice (test_env NoResponse) flaky_store jan2_request =
     (Reply 200 (PriceBody \<lparr>pr_price = Fin 2100, pr_source = interpolated,
                           pr_timestamp = ''2024-01-02T00:00:00Z'',
                           pr_token = ''ETH'', pr_network = ''ethereum''\<rparr>),
      flaky_store, [StoreRead, UpstreamFetch, StoreRead, StoreWrite])"
proof -
  have d2: "Date_parse (test_env out) ''2024-01-02T00:00:00Z'' = Some 1704153600000"
    and d1: "Date_parse (test_env out) ''2024-01-01T00:00:00Z'' = Some 1704067200000"
    and n2: "1704153600000 \<le> now (test_env out)"
    and n1: "1704067200000 \<le> now (test_env out)" for out
    by (simp_all add: test_env_def dates_def)
  have r2: "req_errors jan2_request = []" "req_token jan2_request = Some ''ETH''"
    "req_network jan2_request = Some ''ethereum''"
    and t2: "''2024-01-02T00:00:00Z'' = or_else (req_timestamp jan2_request) (now_iso e)" for e
    by (simp_all add: or_else_def jan2_request_def)
  have r1: "req_errors jan1_request = []" "req_token jan1_request = Some ''ETH''"
    "req_network jan1_request = Some ''ethereum''"
    and t1: "''2024-01-01T00:00:00Z'' = or_else (req_timestamp jan1_request) (now_iso e)" for e
    by (simp_all add: or_else_def jan1_request_def)
  have ne: "''ETH'' \<noteq> []" by simp
  have sym: "isValidTokenAddress ''ETH'' \<or> isTokenSymbol ''ETH''" using ETH_is_symbol by simp
  have down: "\<not> isReady down_store" and stale: "\<not> isReady stale_flag_store"
    by (simp_all add: isReady_def down_store_def stale_flag_store_def)
  have s2: "(1704153600000 :: int) div 1000 = 1704153600"
    and s1: "(1704067200000 :: int) div 1000 = 1704067200" by simp_all
  have fl: "findPriceByTimestamp flaky_store ''ETH'' ''ethereum'' (1704153600000 div 1000) = None"
    unfolding s2 by (rule flaky_no_exact)
  note A = write_failure_not_surfaced [where err = ConnectionError, OF r2(1) r2(2) ne sym r2(3)
      ethereum_supported t2 d2 n2 not_ready_reads(1) [OF down], THEN conjunct1, THEN mp, OF conjI,
      OF upstream_99(1)]
  note B = write_failure_not_surfaced [where err = AlreadyExistsError, OF r1(1) r1(2) ne sym r1(3)
      ethereum_supported t1 d1 n1 not_ready_reads(1) [OF stale], THEN conjunct1, THEN mp, OF conjI,
      OF upstream_99(2)]
  note C = write_failure_not_surfaced [where err = OperationError, OF r2(1) r2(2) ne sym r2(3)
      ethereum_supported t2 d2 n2 fl, THEN conjunct2, THEN mp, OF conjI, OF no_response_null conjI]
  have a: "getPrice (test_env (Response 200 history_99)) down_store jan2_request =
     (Reply 200 (PriceBody \<lparr>pr_price = Fin 99, pr_source = alchemy,
                           pr_timestamp = ''2024-01-02T00:00:00Z'',
                           pr_token = ''ETH'', pr_network = ''ethereum''\<rparr>),
      down_store, [StoreRead, UpstreamFetch, StoreWrite])"
    using A [OF createPrice_down] by simp
  have b: "getPrice (test_env (Response 200 history_99)) stale_flag_store jan1_request =
     (Reply 200 (PriceBody \<lparr>pr_price = Fin 99, pr_source = alchemy,
                           pr_timestamp = ''2024-01-01T00:00:00Z'',
                           pr_token = ''ETH'', pr_network = ''ethereum''\<rparr>),
      stale_flag_store, [StoreRead, UpstreamFetch, StoreWrite])"
    using B [unfolded s1, simplified, OF createPrice_duplicate] by simp
  have ip: "interpolatePrice flaky_store ''ETH'' ''ethereum'' (1704153600000 div 1000) =
      Some \<lparr>ir_price = Fin 2100, ir_source = interpolated,
           ir_confidence = Fin (4 / 10 * (5 / 7) + 4 / 10 * (4 / 5) + 2 / 10 * 1),
           ir_before = \<lparr>dp_timestamp = 1704067200, dp_price = Fin 2000, dp_timeDiff = 86400\<rparr>,
           ir_after = \<lparr>dp_timestamp = 1704240000, dp_price = Fin 2200, dp_timeDiff = 86400\<rparr>\<rparr>"
    unfolding s2 flaky_interpolated by (rule eth_interpolated)
  have c: "getPrice (test_env NoResponse) flaky_store jan2_request =
     (Reply 200 (PriceBody \<lparr>pr_price = Fin 2100, pr_source = interpolated,
                           pr_timestamp = ''2024-01-02T00:00:00Z'',
                           pr_token = ''ETH'', pr_network = ''ethereum''\<rparr>),
      flaky_store, [StoreRead, UpstreamFetch, StoreRead, StoreWrite])"
    using C [OF ip createPrice_flaky] by simp
  from a b c show ?thesis by simp
qed

end
